theory Spec2Isabelle
  imports Complex_Main "HOL-Library.AList" "HOL-Library.Log_Nat"
begin

section \<open>JavaScript numbers\<close>

text \<open>
  A JavaScript number is an IEEE 754 binary64 value: a finite number with a sign (so
  that there are two zeros), an infinity with a sign, or \<^verbatim>\<open>NaN\<close>. A finite number
  is held as its sign (\<open>True\<close> for minus) and its magnitude, a non-negative
  rational.
\<close>

datatype double = Finite bool rat | Infinity bool | NaN

text \<open>
  Rounding to the nearest double, a tie going to the even significand. For a
  positive rational \<open>q\<close>, \<open>ilog2 q\<close> is the exponent \<open>e\<close> with
  \<open>2\<^sup>e \<le> q < 2\<^sup>e\<^sup>+\<^sup>1\<close>, found from the bit lengths of numerator and denominator;
  doubles with that exponent are the multiples of \<open>2\<^sup>e\<^sup>-\<^sup>5\<^sup>2\<close>, and below
  \<open>2\<^sup>-\<^sup>1\<^sup>0\<^sup>2\<^sup>2\<close> (the subnormal numbers) the multiples of \<open>2\<^sup>-\<^sup>1\<^sup>0\<^sup>7\<^sup>4\<close>. A
  result of \<open>2\<^sup>1\<^sup>0\<^sup>2\<^sup>4\<close> or more overflows to infinity.
\<close>

definition ilog2_aux :: "rat \<Rightarrow> int \<Rightarrow> int" where
  "ilog2_aux q e = (if 2 powi e \<le> q then e else e - 1)"

definition ilog2 :: "rat \<Rightarrow> int" where
  "ilog2 q = ilog2_aux q (bitlen (fst (quotient_of q)) - bitlen (snd (quotient_of q)))"

definition expo :: "rat \<Rightarrow> int" where
  "expo q = max (ilog2 q) (- 1022)"

definition round_half_even_aux :: "rat \<Rightarrow> int \<Rightarrow> int" where
  "round_half_even_aux x f =
     (if x - of_int f < 1 / 2 then f
      else if 1 / 2 < x - of_int f then f + 1
      else if even f then f else f + 1)"

definition round_half_even :: "rat \<Rightarrow> int" where
  "round_half_even x = round_half_even_aux x \<lfloor>x\<rfloor>"

definition rnd_ulp :: "rat \<Rightarrow> rat \<Rightarrow> rat" where
  "rnd_ulp q ulp = of_int (round_half_even (q / ulp)) * ulp"

definition rnd :: "rat \<Rightarrow> rat" where
  "rnd q = (if q = 0 then 0 else rnd_ulp q (2 powi (expo q - 52)))"

definition limit :: rat where
  "limit = 2 ^ 1024"

definition overflow :: "bool \<Rightarrow> rat \<Rightarrow> double" where
  "overflow s r = (if limit \<le> r then Infinity s else Finite s r)"

definition round_mag :: "bool \<Rightarrow> rat \<Rightarrow> double" where
  "round_mag s q = overflow s (rnd q)"

text \<open>
  The number a decimal literal of the source denotes (\<^verbatim>\<open>4.33\<close>, \<^verbatim>\<open>60\<close>), and the
  number for an integer, such as the difference of two time values.
\<close>

definition D :: "rat \<Rightarrow> double" where
  "D q = round_mag (q < 0) \<bar>q\<bar>"

definition d_of_int :: "int \<Rightarrow> double" where
  "d_of_int k = round_mag (k < 0) (of_int \<bar>k\<bar>)"

fun d_neg :: "double \<Rightarrow> double" where
  "d_neg (Finite s a) = Finite (\<not> s) a"
| "d_neg (Infinity s) = Infinity (\<not> s)"
| "d_neg NaN = NaN"

text \<open>The operators \<^verbatim>\<open>*\<close> and \<^verbatim>\<open>/\<close>: the exact result, rounded.\<close>

fun d_mul :: "double \<Rightarrow> double \<Rightarrow> double" where
  "d_mul (Finite s a) (Finite t b) = round_mag (s \<noteq> t) (a * b)"
| "d_mul (Finite s a) (Infinity t) = (if a = 0 then NaN else Infinity (s \<noteq> t))"
| "d_mul (Infinity s) (Finite t b) = (if b = 0 then NaN else Infinity (s \<noteq> t))"
| "d_mul (Infinity s) (Infinity t) = Infinity (s \<noteq> t)"
| "d_mul NaN y = NaN"
| "d_mul x NaN = NaN"

fun d_div :: "double \<Rightarrow> double \<Rightarrow> double" where
  "d_div (Finite s a) (Finite t b) =
     (if b = 0 then (if a = 0 then NaN else Infinity (s \<noteq> t))
      else round_mag (s \<noteq> t) (a / b))"
| "d_div (Finite s a) (Infinity t) = Finite (s \<noteq> t) 0"
| "d_div (Infinity s) (Finite t b) = Infinity (s \<noteq> t)"
| "d_div (Infinity s) (Infinity t) = NaN"
| "d_div NaN y = NaN"
| "d_div x NaN = NaN"

text \<open>
  \<^verbatim>\<open>Math.round(x)\<close>: the nearest integer, a tie going towards plus infinity; a
  result of zero keeps the sign of \<open>x\<close>.
\<close>

fun Math_round :: "double \<Rightarrow> double" where
  "Math_round (Finite s a) =
     (let k = \<lfloor>(if s then - a else a) + 1 / 2\<rfloor>
      in Finite (if k = 0 then s else k < 0) (of_int \<bar>k\<bar>))"
| "Math_round (Infinity s) = Infinity s"
| "Math_round NaN = NaN"

text \<open>
  \<^verbatim>\<open>parseFloat(x.toFixed(2))\<close>. For a magnitude below \<open>10\<^sup>2\<^sup>1\<close>, \<^verbatim>\<open>toFixed\<close> picks
  the integer \<open>n\<close> with \<open>n / 100\<close> nearest to the magnitude (the larger \<open>n\<close> on a
  tie) and prints it with two decimals, after a minus sign when \<open>x < 0\<close>; from
  \<open>10\<^sup>2\<^sup>1\<close> on it prints the number as \<^verbatim>\<open>toString\<close> does. \<^verbatim>\<open>parseFloat\<close> reads
  the decimal back as the nearest double. Infinities and \<^verbatim>\<open>NaN\<close> print as their
  names and read back as themselves.
\<close>

fun parseFloat_toFixed2 :: "double \<Rightarrow> double" where
  "parseFloat_toFixed2 (Finite s a) =
     (if 10 ^ 21 \<le> a then Finite s a
      else round_mag (s \<and> a \<noteq> 0) (of_int \<lfloor>a * 100 + 1 / 2\<rfloor> / 100))"
| "parseFloat_toFixed2 (Infinity s) = Infinity s"
| "parseFloat_toFixed2 NaN = NaN"

text \<open>The comparisons \<^verbatim>\<open><=\<close> and \<^verbatim>\<open>===\<close>: false on \<^verbatim>\<open>NaN\<close>, and the two zeros are equal.\<close>

fun d_le :: "double \<Rightarrow> double \<Rightarrow> bool" where
  "d_le (Finite s a) (Finite t b) = ((if s then - a else a) \<le> (if t then - b else b))"
| "d_le (Finite s a) (Infinity t) = (\<not> t)"
| "d_le (Infinity s) (Finite t b) = s"
| "d_le (Infinity s) (Infinity t) = (s \<or> \<not> t)"
| "d_le NaN y = False"
| "d_le x NaN = False"

fun d_eq :: "double \<Rightarrow> double \<Rightarrow> bool" where
  "d_eq (Finite s a) (Finite t b) = (a = b \<and> (s = t \<or> a = 0))"
| "d_eq (Infinity s) (Infinity t) = (s = t)"
| "d_eq x y = False"

fun is_finite :: "double \<Rightarrow> bool" where
  "is_finite (Finite s a) = True"
| "is_finite (Infinity s) = False"
| "is_finite NaN = False"

text \<open>A number that is neither negative nor \<^verbatim>\<open>NaN\<close> nor minus zero.\<close>

fun nonneg :: "double \<Rightarrow> bool" where
  "nonneg (Finite s a) = (\<not> s \<and> 0 \<le> a)"
| "nonneg (Infinity s) = (\<not> s)"
| "nonneg NaN = False"

section \<open>Data model (schema.ts)\<close>

text \<open>
  A \<^verbatim>\<open>Date\<close> is its time value, the milliseconds since the epoch: an integer of
  at most \<open>8.64 * 10\<^sup>1\<^sup>5\<close> in magnitude.
\<close>

type_synonym date = int

definition valid_date :: "date \<Rightarrow> bool" where
  "valid_date t = (\<bar>t\<bar> \<le> 8640000000000000)"

record UserSettings =
  id_US :: string
  monthlySalary :: double
  dailyHours :: double
  weeklyDays :: double
  isHoliday :: bool
  createdAt :: date
  updatedAt :: date

record IncomeSession =
  id_IS :: string
  userSettingsId :: string
  sessionStart :: date
  sessionEnd :: "date option"
  totalEarned :: double
  isActive :: bool

section \<open>Rate calculation (GET /api/calculate-rates/:userSettingsId)\<close>

record RatesResponse =
  perMinute :: double
  perHour :: double
  perDay :: double
  monthlyHours :: double

definition calculate_rates :: "UserSettings \<Rightarrow> RatesResponse" where
  "calculate_rates settings =
     (let monthlyHours = d_mul (d_mul (dailyHours settings) (weeklyDays settings)) (D 4.33);
          hourlyRate = d_div (monthlySalary settings) monthlyHours;
          minuteRate = d_div hourlyRate (D 60);
          dailyRate = d_mul hourlyRate (dailyHours settings)
      in \<lparr> perMinute = d_div (Math_round (d_mul minuteRate (D 100))) (D 100),
           perHour = d_div (Math_round (d_mul hourlyRate (D 100))) (D 100),
           perDay = d_div (Math_round (d_mul dailyRate (D 100))) (D 100),
           monthlyHours = d_div (Math_round (d_mul monthlyHours (D 100))) (D 100) \<rparr>)"

text \<open>
  The settlement amount, as the DELETE handler computes it between taking the
  clock and writing the session: the elapsed milliseconds, as minutes, times the
  rate per minute, cut to two decimals.
\<close>

definition earned :: "UserSettings \<Rightarrow> date \<Rightarrow> date \<Rightarrow> double" where
  "earned settings start now =
     (let elapsedMs = d_of_int (now - start);
          elapsedMinutes = d_div (d_div elapsedMs (D 1000)) (D 60);
          monthlyHours = d_mul (d_mul (dailyHours settings) (weeklyDays settings)) (D 4.33);
          hourlyRate = d_div (monthlySalary settings) monthlyHours
      in parseFloat_toFixed2 (d_mul elapsedMinutes (d_div hourlyRate (D 60))))"

text \<open>
  The two intermediate values of that computation by name: the hourly rate, which
  both handlers compute in the same way, and the elapsed minutes.
\<close>

definition hourlyRate :: "UserSettings \<Rightarrow> double" where
  "hourlyRate settings =
     d_div (monthlySalary settings)
       (d_mul (d_mul (dailyHours settings) (weeklyDays settings)) (D 4.33))"

definition elapsedMinutes :: "date \<Rightarrow> date \<Rightarrow> double" where
  "elapsedMinutes start now = d_div (d_div (d_of_int (now - start)) (D 1000)) (D 60)"

section \<open>Storage (storage.ts)\<close>

text \<open>
  The store holds two keyed collections. They are modelled as \<^verbatim>\<open>MemStorage\<close>
  has them: a JavaScript \<^verbatim>\<open>Map\<close> is an association list in insertion order, a
  \<^verbatim>\<open>set\<close> on a key that is present replaces the value in place and a
  \<^verbatim>\<open>set\<close> on a new key appends. Identifiers and the clock come from outside
  (\<^verbatim>\<open>randomUUID()\<close>, \<^verbatim>\<open>new Date()\<close>) and are parameters.

  The routes run on \<^verbatim>\<open>MongoStorage\<close>, which hands each operation to the database:
  find by id, find one active session of a configuration, insert with the schema's
  defaults, set the supplied fields and return the new document. On the maps these
  are the operations of \<^verbatim>\<open>MemStorage\<close>, with one difference that the model keeps:
  the update casts the supplied fields to the schema, the cast of a number rejects
  \<^verbatim>\<open>NaN\<close>, and \<^verbatim>\<open>MongoStorage.updateIncomeSession\<close> catches the error and returns
  \<^verbatim>\<open>undefined\<close> with nothing written. An unreachable database is not part of the
  model.
\<close>

record MemStorage =
  userSettings :: "(string \<times> UserSettings) list"
  incomeSessions :: "(string \<times> IncomeSession) list"

record InsertIncomeSession =
  userSettingsId_I :: string

text \<open>
  \<^verbatim>\<open>Partial<IncomeSession>\<close>: every field may be absent (\<open>None\<close>). The optional
  field \<^verbatim>\<open>sessionEnd\<close> may also be supplied as \<^verbatim>\<open>undefined\<close> (\<open>Some None\<close>).
\<close>

record PartialIncomeSession =
  id_P :: "string option"
  userSettingsId_P :: "string option"
  sessionStart_P :: "date option"
  sessionEnd_P :: "date option option"
  totalEarned_P :: "double option"
  isActive_P :: "bool option"

definition no_fields :: PartialIncomeSession where
  "no_fields = \<lparr> id_P = None, userSettingsId_P = None, sessionStart_P = None,
                  sessionEnd_P = None, totalEarned_P = None, isActive_P = None \<rparr>"

text \<open>The object spread \<^verbatim>\<open>{ ...existing, ...updateData }\<close>.\<close>

definition spread :: "IncomeSession \<Rightarrow> PartialIncomeSession \<Rightarrow> IncomeSession" where
  "spread existing updateData =
     \<lparr> id_IS = (case id_P updateData of None \<Rightarrow> id_IS existing | Some v \<Rightarrow> v),
       userSettingsId =
         (case userSettingsId_P updateData of None \<Rightarrow> userSettingsId existing | Some v \<Rightarrow> v),
       sessionStart =
         (case sessionStart_P updateData of None \<Rightarrow> sessionStart existing | Some v \<Rightarrow> v),
       sessionEnd =
         (case sessionEnd_P updateData of None \<Rightarrow> sessionEnd existing | Some v \<Rightarrow> v),
       totalEarned =
         (case totalEarned_P updateData of None \<Rightarrow> totalEarned existing | Some v \<Rightarrow> v),
       isActive = (case isActive_P updateData of None \<Rightarrow> isActive existing | Some v \<Rightarrow> v) \<rparr>"

definition getUserSettings :: "MemStorage \<Rightarrow> string \<Rightarrow> UserSettings option" where
  "getUserSettings st i = map_of (userSettings st) i"

definition getUserSettingsById :: "MemStorage \<Rightarrow> string \<Rightarrow> UserSettings option" where
  "getUserSettingsById st i = getUserSettings st i"

definition getIncomeSessionById :: "MemStorage \<Rightarrow> string \<Rightarrow> IncomeSession option" where
  "getIncomeSessionById st i = map_of (incomeSessions st) i"

definition getActiveSession :: "MemStorage \<Rightarrow> string \<Rightarrow> IncomeSession option" where
  "getActiveSession st uid =
     find (\<lambda>session. userSettingsId session = uid \<and> isActive session)
       (map snd (incomeSessions st))"

definition createIncomeSession ::
  "MemStorage \<Rightarrow> InsertIncomeSession \<Rightarrow> string \<Rightarrow> date \<Rightarrow> IncomeSession \<times> MemStorage" where
  "createIncomeSession st insertSession new_id now =
     (let session = \<lparr> id_IS = new_id, userSettingsId = userSettingsId_I insertSession,
                        sessionStart = now, sessionEnd = None, totalEarned = Finite False 0,
                        isActive = True \<rparr>
      in (session, st\<lparr>incomeSessions := AList.update new_id session (incomeSessions st)\<rparr>))"

text \<open>\<^verbatim>\<open>MemStorage.updateIncomeSession\<close>.\<close>

definition updateIncomeSession ::
  "MemStorage \<Rightarrow> string \<Rightarrow> PartialIncomeSession \<Rightarrow> IncomeSession option \<times> MemStorage" where
  "updateIncomeSession st i updateData =
     (case map_of (incomeSessions st) i of
        None \<Rightarrow> (None, st)
      | Some existing \<Rightarrow>
          (let updated = spread existing updateData
           in (Some updated, st\<lparr>incomeSessions := AList.update i updated (incomeSessions st)\<rparr>)))"

text \<open>
  \<^verbatim>\<open>MongoStorage.updateIncomeSession\<close>, which the routes call: a supplied
  \<^verbatim>\<open>totalEarned\<close> of \<^verbatim>\<open>NaN\<close> fails the cast, the error is caught and the result
  is \<^verbatim>\<open>undefined\<close>; otherwise the supplied fields are set.
\<close>

definition updateIncomeSession_Mongo ::
  "MemStorage \<Rightarrow> string \<Rightarrow> PartialIncomeSession \<Rightarrow> IncomeSession option \<times> MemStorage" where
  "updateIncomeSession_Mongo st i updateData =
     (if totalEarned_P updateData = Some NaN then (None, st)
      else updateIncomeSession st i updateData)"

section \<open>Routes (routes.ts)\<close>

text \<open>
  A response is its status code and the value handed to \<^verbatim>\<open>res.json\<close>. A handler
  takes the store and gives back the response with the store it leaves behind.
\<close>

datatype body =
  Message string
| Session IncomeSession
| Rates RatesResponse
| Undefined

datatype response = Response nat body

text \<open>
  POST /api/income-session. The body's \<^verbatim>\<open>userSettingsId\<close> is \<open>None\<close> when it
  is missing; the empty string is falsy as well.
\<close>

definition post_income_session ::
  "MemStorage \<Rightarrow> string option \<Rightarrow> string \<Rightarrow> date \<Rightarrow> response \<times> MemStorage" where
  "post_income_session st userSettingsId_body new_id now =
     (case userSettingsId_body of
        None \<Rightarrow> (Response 400 (Message ''User settings ID is required''), st)
      | Some uid \<Rightarrow>
          if uid = [] then (Response 400 (Message ''User settings ID is required''), st)
          else
            (case getActiveSession st uid of
               Some activeSession \<Rightarrow> (Response 200 (Session activeSession), st)
             | None \<Rightarrow>
                 (let (session, st') =
                        createIncomeSession st \<lparr> userSettingsId_I = uid \<rparr> new_id now
                  in (Response 200 (Session session), st'))))"

text \<open>
  DELETE /api/income-session/:id. The result of the update goes to \<^verbatim>\<open>res.json\<close>
  unchecked, so an update that returned \<^verbatim>\<open>undefined\<close> is answered with status 200
  and no body.
\<close>

definition delete_income_session ::
  "MemStorage \<Rightarrow> string \<Rightarrow> date \<Rightarrow> response \<times> MemStorage" where
  "delete_income_session st i now =
     (case getIncomeSessionById st i of
        None \<Rightarrow> (Response 404 (Message ''Active session not found''), st)
      | Some session \<Rightarrow>
          if \<not> isActive session
          then (Response 404 (Message ''Active session not found''), st)
          else
            (case getUserSettingsById st (userSettingsId session) of
               None \<Rightarrow> (Response 404 (Message ''User settings not found''), st)
             | Some settings \<Rightarrow>
                 (let (updatedSession, st') =
                        updateIncomeSession_Mongo st i
                          (no_fields\<lparr> totalEarned_P := Some (earned settings (sessionStart session) now),
                                       sessionEnd_P := Some (Some now),
                                       isActive_P := Some False \<rparr>)
                  in (Response 200
                        (case updatedSession of None \<Rightarrow> Undefined | Some s \<Rightarrow> Session s),
                      st'))))"

text \<open>GET /api/calculate-rates/:userSettingsId. It reads the store only.\<close>

definition get_calculate_rates :: "MemStorage \<Rightarrow> string \<Rightarrow> response" where
  "get_calculate_rates st uid =
     (case getUserSettings st uid of
        None \<Rightarrow> Response 404 (Message ''Settings not found'')
      | Some settings \<Rightarrow> Response 200 (Rates (calculate_rates settings)))"

section \<open>The specification's formulas\<close>








text \<open>
  A configuration of finite positive numbers, and the range that the request
  validation admits (every field at least 1, at most 24 hours and 7 days) with
  the salary capped at \<open>10\<^sup>9\<close>.
\<close>

definition has_values :: "UserSettings \<Rightarrow> rat \<Rightarrow> rat \<Rightarrow> rat \<Rightarrow> bool" where
  "has_values c S d w =
     (monthlySalary c = Finite False S \<and> dailyHours c = Finite False d \<and>
      weeklyDays c = Finite False w)"


text \<open>The number \<open>a\<close> is \<open>x\<close> up to the relative error \<open>e\<close>.\<close>

definition close_to :: "rat \<Rightarrow> rat \<Rightarrow> rat \<Rightarrow> bool" where
  "close_to e a x = (\<bar>a - x\<bar> \<le> e * x)"

text \<open>
  Concrete data: Scenario A of the specification, a configuration with no working
  hours, two configurations on which rounding error shows, a running session and
  an ended one, and a store that holds them.
\<close>

definition scenario_A :: UserSettings where
  "scenario_A = \<lparr> id_US = ''A'', monthlySalary = Finite False 5000,
                   dailyHours = Finite False 8, weeklyDays = Finite False 5,
                   isHoliday = False, createdAt = 0, updatedAt = 0 \<rparr>"

definition zero_hours :: UserSettings where
  "zero_hours = \<lparr> id_US = ''Z'', monthlySalary = Finite False 5000,
                   dailyHours = Finite False 0, weeklyDays = Finite False 5,
                   isHoliday = False, createdAt = 0, updatedAt = 0 \<rparr>"

definition settings_B :: UserSettings where
  "settings_B = \<lparr> id_US = ''B'', monthlySalary = Finite False 27279,
                   dailyHours = Finite False 8, weeklyDays = Finite False 7,
                   isHoliday = False, createdAt = 0, updatedAt = 0 \<rparr>"

definition settings_C :: UserSettings where
  "settings_C = \<lparr> id_US = ''C'', monthlySalary = Finite False 4330,
                   dailyHours = Finite False 8, weeklyDays = Finite False 5,
                   isHoliday = False, createdAt = 0, updatedAt = 0 \<rparr>"

definition session_1 :: IncomeSession where
  "session_1 = \<lparr> id_IS = ''s1'', userSettingsId = ''A'', sessionStart = 60000,
                  sessionEnd = None, totalEarned = Finite False 0, isActive = True \<rparr>"

definition session_2 :: IncomeSession where
  "session_2 = \<lparr> id_IS = ''s2'', userSettingsId = ''Z'', sessionStart = 0,
                  sessionEnd = Some 60000, totalEarned = D 0.48, isActive = False \<rparr>"

definition session_3 :: IncomeSession where
  "session_3 = \<lparr> id_IS = ''s3'', userSettingsId = ''C'', sessionStart = 0,
                  sessionEnd = None, totalEarned = Finite False 0, isActive = True \<rparr>"

definition store_A :: MemStorage where
  "store_A = \<lparr> userSettings = [(''A'', scenario_A), (''Z'', zero_hours), (''B'', settings_B),
                                (''C'', settings_C)],
                incomeSessions = [(''s1'', session_1), (''s2'', session_2), (''s3'', session_3)] \<rparr>"

section \<open>Rounding to the nearest double\<close>

subsection \<open>Powers of two and the binary exponent\<close>

lemma pow2_pos: "0 < (2::rat) powi e"
  by simp

lemma pow2_mono: "a \<le> b \<Longrightarrow> (2::rat) powi a \<le> 2 powi b"
  by (rule power_int_increasing) simp_all

lemma pow2_strict_mono: "a < b \<Longrightarrow> (2::rat) powi a < 2 powi b"
  by (rule power_int_strict_increasing) simp_all

lemma pow2_Suc: "(2::rat) powi (e + 1) = 2 * 2 powi e"
  by (simp add: power_int_add)

lemma pow2_less_imp: "(2::rat) powi a < 2 powi b \<Longrightarrow> a < b"
  by (metis not_less pow2_mono)

lemma bitlen_rat_bounds:
  assumes "0 < (a::int)"
  shows "(2::rat) powi (bitlen a - 1) \<le> of_int a" and "rat_of_int a < 2 powi bitlen a"
proof -
  from bitlen_bounds [OF assms]
  have lo: "(2::int) ^ nat (bitlen a - 1) \<le> a" and hi: "a < 2 ^ nat (bitlen a)"
    by simp_all
  have pos: "0 < bitlen a"
    using hi assms by (cases "bitlen a \<le> 0") (simp_all add: bitlen_def)
  have "rat_of_int (2 ^ nat (bitlen a - 1)) \<le> of_int a"
    using lo by (simp only: of_int_le_iff)
  then show "(2::rat) powi (bitlen a - 1) \<le> of_int a"
    using pos by (simp add: power_int_def)
  have "rat_of_int a < of_int (2 ^ nat (bitlen a))"
    using hi by (simp only: of_int_less_iff)
  then show "rat_of_int a < 2 powi bitlen a"
    using pos by (simp add: power_int_def)
qed

lemma ilog2_bounds:
  assumes "0 < q"
  shows "2 powi ilog2 q \<le> q" and "q < 2 powi (ilog2 q + 1)"
proof -
  obtain a b where ab: "quotient_of q = (a, b)"
    by (cases "quotient_of q")
  have b: "0 < b" using ab by (rule quotient_of_denom_pos)
  have q: "q = of_int a / of_int b" using ab by (rule quotient_of_div)
  have a: "0 < a"
    using assms b unfolding q by (simp add: zero_less_divide_iff)
  define e where "e = bitlen a - bitlen b"
  note A = bitlen_rat_bounds [OF a] and B = bitlen_rat_bounds [OF b]
  have bpos: "0 < rat_of_int b" using b by simp
  have "q < 2 powi bitlen a / 2 powi (bitlen b - 1)"
    unfolding q using A(2) B(1) bpos
    by (intro frac_less) (simp_all add: a less_imp_le)
  also have "\<dots> = 2 powi (e + 1)"
    by (simp add: e_def power_int_diff [symmetric] algebra_simps)
  finally have hi: "q < 2 powi (e + 1)" .
  have "2 powi (bitlen a - 1) / 2 powi bitlen b < q"
    unfolding q using A(1) B(2) bpos a
    by (intro frac_less2) simp_all
  moreover have "(2::rat) powi (bitlen a - 1) / 2 powi bitlen b = 2 powi (e - 1)"
    by (simp add: e_def power_int_diff [symmetric] algebra_simps)
  ultimately have lo: "2 powi (e - 1) < q" by simp
  have il: "ilog2 q = (if 2 powi e \<le> q then e else e - 1)"
    by (simp add: ilog2_def ilog2_aux_def ab e_def)
  show "2 powi ilog2 q \<le> q"
    using lo by (simp add: il less_imp_le)
  show "q < 2 powi (ilog2 q + 1)"
    using hi by (simp add: il not_le)
qed

lemma ilog2_unique:
  assumes "2 powi e \<le> q" and "q < 2 powi (e + 1)"
  shows "ilog2 q = e"
proof -
  have pos: "0 < q" using assms(1) pow2_pos [of e] by linarith
  note B = ilog2_bounds [OF pos]
  have "(2::rat) powi e < 2 powi (ilog2 q + 1)" using assms(1) B(2) by linarith
  then have 1: "e < ilog2 q + 1" by (rule pow2_less_imp)
  have "(2::rat) powi ilog2 q < 2 powi (e + 1)" using assms(2) B(1) by linarith
  then have 2: "ilog2 q < e + 1" by (rule pow2_less_imp)
  show ?thesis using 1 2 by linarith
qed

lemma ilog2_mono:
  assumes "0 < x" and "x \<le> y"
  shows "ilog2 x \<le> ilog2 y"
proof -
  have y: "0 < y" using assms by linarith
  have "(2::rat) powi ilog2 x < 2 powi (ilog2 y + 1)"
    using ilog2_bounds(1) [OF assms(1)] ilog2_bounds(2) [OF y] assms(2) by linarith
  then have "ilog2 x < ilog2 y + 1" by (rule pow2_less_imp)
  then show ?thesis by simp
qed

subsection \<open>round half even\<close>

lemma round_half_even_error: "\<bar>of_int (round_half_even x) - x\<bar> \<le> 1 / 2"
proof -
  have "of_int \<lfloor>x\<rfloor> \<le> x" "x < of_int \<lfloor>x\<rfloor> + 1"
    using floor_correct [of x] by simp_all
  then show ?thesis
    by (auto simp: round_half_even_def round_half_even_aux_def abs_le_iff)
qed

lemma round_half_even_unique:
  assumes "\<bar>x - of_int n\<bar> < 1 / 2"
  shows "round_half_even x = n"
proof -
  have "\<bar>of_int (round_half_even x) - rat_of_int n\<bar> < 1"
    using round_half_even_error [of x] assms by linarith
  then have "\<bar>rat_of_int (round_half_even x - n)\<bar> < 1" by simp
  then have "\<bar>round_half_even x - n\<bar> < 1"
    by (metis of_int_abs of_int_less_1_iff)
  then show ?thesis by linarith
qed

lemma round_half_even_of_int [simp]: "round_half_even (of_int n) = n"
  by (rule round_half_even_unique) simp

lemma round_half_even_mono:
  assumes "x \<le> y"
  shows "round_half_even x \<le> round_half_even y"
proof (cases "\<lfloor>x\<rfloor> = \<lfloor>y\<rfloor>")
  case True
  then show ?thesis
    using assms by (auto simp: round_half_even_def round_half_even_aux_def)
next
  case False
  then have "\<lfloor>x\<rfloor> < \<lfloor>y\<rfloor>" using floor_mono [OF assms] by linarith
  then have "\<lfloor>x\<rfloor> + 1 \<le> \<lfloor>y\<rfloor>" by linarith
  moreover have "round_half_even x \<le> \<lfloor>x\<rfloor> + 1"
    by (simp add: round_half_even_def round_half_even_aux_def)
  moreover have "\<lfloor>y\<rfloor> \<le> round_half_even y"
    by (simp add: round_half_even_def round_half_even_aux_def)
  ultimately show ?thesis by linarith
qed

lemma rnd_pos_def: "0 < q \<Longrightarrow> rnd q = of_int (round_half_even (q / 2 powi (expo q - 52))) * 2 powi (expo q - 52)"
  by (simp add: rnd_def rnd_ulp_def expo_def)

lemma rnd_0 [simp]: "rnd 0 = 0"
  by (simp add: rnd_def)

lemma rnd_cert:
  assumes "2 powi e \<le> q" and "q < 2 powi (e + 1)" and "- 1022 \<le> e"
    and "\<bar>q - of_int n * 2 powi (e - 52)\<bar> < 2 powi (e - 53)"
  shows "rnd q = of_int n * 2 powi (e - 52)"
proof -
  have pos: "0 < q" using assms(1) pow2_pos [of e] by linarith
  have e: "expo q = e"
    using ilog2_unique [OF assms(1,2)] assms(3) by (simp add: expo_def)
  define ulp :: rat where "ulp = 2 powi (e - 52)"
  have ulp: "0 < ulp" by (simp add: ulp_def)
  have half: "(2::rat) powi (e - 53) = ulp / 2"
    by (simp add: ulp_def power_int_diff)
  have "\<bar>q - of_int n * ulp\<bar> < ulp / 2"
    using assms(4) unfolding half ulp_def [symmetric] .
  then have "\<bar>q - of_int n * ulp\<bar> / ulp < 1 / 2"
    using ulp by (simp add: field_simps)
  moreover have "\<bar>q - of_int n * ulp\<bar> / ulp = \<bar>q / ulp - of_int n\<bar>"
  proof -
    have "\<bar>q - of_int n * ulp\<bar> / ulp = \<bar>(q - of_int n * ulp) / ulp\<bar>"
      using ulp by (simp add: abs_divide)
    also have "(q - of_int n * ulp) / ulp = q / ulp - of_int n"
      using ulp by (simp add: field_simps)
    finally show ?thesis .
  qed
  ultimately have "\<bar>q / ulp - of_int n\<bar> < 1 / 2" by simp
  then have "round_half_even (q / ulp) = n" by (rule round_half_even_unique)
  then show ?thesis
    using rnd_pos_def [OF pos] by (simp add: e ulp_def)
qed

lemma round_half_even_tie:
  "round_half_even (of_int n + 1 / 2) = (if even n then n else n + 1)"
proof -
  have "\<lfloor>rat_of_int n + 1 / 2\<rfloor> = n"
    by (simp add: floor_eq_iff)
  then show ?thesis
    by (simp add: round_half_even_def round_half_even_aux_def)
qed

lemma rnd_cert_tie:
  assumes "2 powi e \<le> q" and "q < 2 powi (e + 1)" and "- 1022 \<le> e"
    and "q = (of_int n + 1 / 2) * 2 powi (e - 52)"
  shows "rnd q = of_int (if even n then n else n + 1) * 2 powi (e - 52)"
proof -
  have pos: "0 < q" using assms(1) pow2_pos [of e] by linarith
  have e: "expo q = e"
    using ilog2_unique [OF assms(1,2)] assms(3) by (simp add: expo_def)
  have "q / 2 powi (e - 52) = of_int n + 1 / 2"
    unfolding assms(4) by simp
  then show ?thesis
    using rnd_pos_def [OF pos] by (simp add: e round_half_even_tie)
qed

lemma rnd_nonneg: "0 \<le> q \<Longrightarrow> 0 \<le> rnd q"
proof (cases "q = 0")
  case False
  assume "0 \<le> q"
  with False have pos: "0 < q" by simp
  have "0 \<le> q / 2 powi (expo q - 52)" using pos by simp
  then have "round_half_even 0 \<le> round_half_even (q / 2 powi (expo q - 52))"
    by (rule round_half_even_mono)
  then have "0 \<le> round_half_even (q / 2 powi (expo q - 52))"
    using round_half_even_of_int [of 0] by simp
  then show ?thesis
    by (simp add: rnd_pos_def [OF pos])
qed simp

lemma rnd_le_grid:
  assumes "0 < x" and "x \<le> of_int N * 2 powi j" and "expo x - 52 \<le> j"
  shows "rnd x \<le> of_int N * 2 powi j"
proof -
  define k where "k = expo x - 52"
  define M where "M = N * 2 ^ nat (j - k)"
  have B: "rat_of_int N * 2 powi j = of_int M * 2 powi k"
  proof -
    have "(2::rat) powi j = 2 powi (j - k) * 2 powi k"
      by (simp add: power_int_add [symmetric])
    moreover have "(2::rat) powi (j - k) = 2 ^ nat (j - k)"
      using assms(3) by (simp add: k_def power_int_def)
    ultimately show ?thesis by (simp add: M_def)
  qed
  have "x / 2 powi k \<le> of_int M"
    using assms(2) unfolding B by (simp add: field_simps)
  then have "round_half_even (x / 2 powi k) \<le> round_half_even (of_int M)"
    by (rule round_half_even_mono)
  then have "rat_of_int (round_half_even (x / 2 powi k)) \<le> of_int M"
    by simp
  then have "rat_of_int (round_half_even (x / 2 powi k)) * 2 powi k \<le> of_int M * 2 powi k"
    by (simp add: mult_right_mono)
  then show ?thesis
    unfolding B rnd_pos_def [OF assms(1)] k_def .
qed

lemma rnd_ge_grid:
  assumes "0 < x" and "of_int N * 2 powi j \<le> x" and "expo x - 52 \<le> j"
  shows "of_int N * 2 powi j \<le> rnd x"
proof -
  define k where "k = expo x - 52"
  define M where "M = N * 2 ^ nat (j - k)"
  have B: "rat_of_int N * 2 powi j = of_int M * 2 powi k"
  proof -
    have "(2::rat) powi j = 2 powi (j - k) * 2 powi k"
      by (simp add: power_int_add [symmetric])
    moreover have "(2::rat) powi (j - k) = 2 ^ nat (j - k)"
      using assms(3) by (simp add: k_def power_int_def)
    ultimately show ?thesis by (simp add: M_def)
  qed
  have "of_int M \<le> x / 2 powi k"
    using assms(2) unfolding B by (simp add: field_simps)
  then have "round_half_even (of_int M) \<le> round_half_even (x / 2 powi k)"
    by (rule round_half_even_mono)
  then have "rat_of_int M \<le> of_int (round_half_even (x / 2 powi k))"
    by simp
  then have "of_int M * 2 powi k \<le> rat_of_int (round_half_even (x / 2 powi k)) * 2 powi k"
    by (simp add: mult_right_mono)
  then show ?thesis
    unfolding B rnd_pos_def [OF assms(1)] k_def .
qed

lemma expo_mono: "0 < x \<Longrightarrow> x \<le> y \<Longrightarrow> expo x \<le> expo y"
  using ilog2_mono [of x y] by (simp add: expo_def)

lemma rnd_mono:
  assumes "0 \<le> x" and "x \<le> y"
  shows "rnd x \<le> rnd y"
proof (cases "x = 0")
  case True
  then show ?thesis using rnd_nonneg [of y] assms by simp
next
  case False
  then have x: "0 < x" using assms by simp
  then have y: "0 < y" using assms by linarith
  have le: "expo x \<le> expo y" using x assms(2) by (rule expo_mono)
  show ?thesis
  proof (cases "expo x = expo y")
    case True
    have "x / 2 powi (expo y - 52) \<le> y / 2 powi (expo y - 52)"
      using assms(2) by (simp add: divide_right_mono)
    then have "round_half_even (x / 2 powi (expo y - 52)) \<le> round_half_even (y / 2 powi (expo y - 52))"
      by (rule round_half_even_mono)
    then show ?thesis
      by (simp add: rnd_pos_def [OF x] rnd_pos_def [OF y] True mult_right_mono)
  next
    case False
    then have lt: "expo x < expo y" using le by simp
    then have ey: "expo y = ilog2 y" by (auto simp: expo_def max_def split: if_splits)
    have "x < 2 powi (ilog2 x + 1)" using ilog2_bounds(2) [OF x] .
    also have "\<dots> \<le> 2 powi (expo x + 1)"
      by (rule pow2_mono) (simp add: expo_def)
    finally have "x \<le> of_int 1 * 2 powi (expo x + 1)" by simp
    then have "rnd x \<le> of_int 1 * 2 powi (expo x + 1)"
      by (intro rnd_le_grid x) simp_all
    then have 1: "rnd x \<le> 2 powi (expo x + 1)" by simp
    have "of_int 1 * 2 powi (expo y) \<le> y"
      using ilog2_bounds(1) [OF y] by (simp add: ey)
    then have "of_int 1 * 2 powi (expo y) \<le> rnd y"
      by (intro rnd_ge_grid y) simp_all
    then have 2: "2 powi (expo y) \<le> rnd y" by simp
    have "(2::rat) powi (expo x + 1) \<le> 2 powi (expo y)"
      using lt by (intro pow2_mono) simp
    then show ?thesis using 1 2 by linarith
  qed
qed



subsection \<open>Shapes of rounded results\<close>

lemma limit_pos: "0 < limit"
  by (simp add: limit_def)

lemma limit_pow2: "limit = 2 powi 1024"
  by (simp add: limit_def)

lemma floor_half [simp]: "\<lfloor>1 / 2 :: rat\<rfloor> = 0"
  by (simp add: floor_eq_iff)

lemma overflow_finite: "r < limit \<Longrightarrow> overflow s r = Finite s r"
  by (simp add: overflow_def)

lemma round_mag_finite: "rnd q < limit \<Longrightarrow> round_mag s q = Finite s (rnd q)"
  by (simp add: round_mag_def overflow_def)

lemma round_mag_0 [simp]: "round_mag s 0 = Finite s 0"
  by (simp add: round_mag_def overflow_def limit_def)

lemma d_neg_round_mag: "d_neg (round_mag s q) = round_mag (\<not> s) q"
  by (simp add: round_mag_def overflow_def)

lemma d_neg_overflow: "d_neg (overflow s q) = overflow (\<not> s) q"
  by (simp add: overflow_def)

lemma rnd_ge_pow2:
  assumes "2 powi m \<le> x" and "- 1022 \<le> m"
  shows "2 powi m \<le> rnd x"
proof -
  have x: "0 < x" using assms(1) pow2_pos [of m] by linarith
  have "(2::rat) powi m < 2 powi (ilog2 x + 1)"
    using assms(1) ilog2_bounds(2) [OF x] by linarith
  then have "m < ilog2 x + 1" by (rule pow2_less_imp)
  then have m: "m \<le> ilog2 x" by simp
  then have e: "expo x = ilog2 x" using assms(2) by (simp add: expo_def)
  have "of_int 1 * 2 powi (expo x) \<le> x"
    using ilog2_bounds(1) [OF x] by (simp add: e)
  then have "of_int 1 * 2 powi (expo x) \<le> rnd x"
    by (intro rnd_ge_grid x) simp_all
  moreover have "(2::rat) powi m \<le> 2 powi (expo x)"
    using m by (simp add: e pow2_mono)
  ultimately show ?thesis by simp
qed

lemma rnd_le_pow2:
  assumes "0 \<le> x" and "x \<le> 2 powi m" and "- 1074 \<le> m"
  shows "rnd x \<le> 2 powi m"
proof (cases "x = 0")
  case True
  then show ?thesis by simp
next
  case False
  then have x: "0 < x" using assms(1) by simp
  have "(2::rat) powi ilog2 x < 2 powi (m + 1)"
    using ilog2_bounds(1) [OF x] assms(2) pow2_strict_mono [of m "m + 1"] by linarith
  then have "ilog2 x < m + 1" by (rule pow2_less_imp)
  then have "expo x - 52 \<le> m" using assms(3) by (simp add: expo_def)
  moreover have "x \<le> of_int 1 * 2 powi m" using assms(2) by simp
  ultimately have "rnd x \<le> of_int 1 * 2 powi m"
    by (intro rnd_le_grid x)
  then show ?thesis by simp
qed

lemma round_mag_small:
  assumes "0 \<le> q" and "q \<le> 2 powi 1023"
  shows "round_mag s q = Finite s (rnd q)"
proof -
  have "rnd q \<le> 2 powi 1023" using assms by (intro rnd_le_pow2) simp_all
  also have "\<dots> < limit" unfolding limit_pow2 by (intro pow2_strict_mono) simp
  finally show ?thesis by (rule round_mag_finite)
qed

lemma rnd_pos:
  assumes "2 powi m \<le> x" and "- 1022 \<le> m"
  shows "0 < rnd x"
  using rnd_ge_pow2 [OF assms] pow2_pos [of m] by linarith

subsection \<open>The constants of the source\<close>

lemma rnd_60: "rnd 60 = 60"
  by (simp add: rnd_cert [where e = 5 and n = "60 * 2 ^ 47"])

lemma rnd_100: "rnd 100 = 100"
  by (simp add: rnd_cert [where e = 6 and n = "100 * 2 ^ 46"])

lemma rnd_1000: "rnd 1000 = 1000"
  by (simp add: rnd_cert [where e = 9 and n = "1000 * 2 ^ 43"])

lemma rnd_433: "rnd (433 / 100) = 2437573298314281 / 562949953421312"
  by (simp add: rnd_cert [where e = 2 and n = 4875146596628562])

lemma D_60: "D 60 = Finite False 60"
  by (simp add: D_def round_mag_def overflow_def limit_def rnd_60)

lemma D_100: "D 100 = Finite False 100"
  by (simp add: D_def round_mag_def overflow_def limit_def rnd_100)

lemma D_1000: "D 1000 = Finite False 1000"
  by (simp add: D_def round_mag_def overflow_def limit_def rnd_1000)

lemma D_433: "D 4.33 = Finite False (2437573298314281 / 562949953421312)"
  by (simp add: D_def round_mag_def overflow_def limit_def rnd_433)

subsection \<open>Negation\<close>

lemma d_mul_neg: "d_mul (d_neg x) y = d_neg (d_mul x y)"
  by (cases x; cases y) (auto simp: d_neg_round_mag)

lemma d_div_neg: "d_div (d_neg x) y = d_neg (d_div x y)"
  by (cases x; cases y) (auto simp: d_neg_round_mag)

lemma d_of_int_neg: "k \<noteq> 0 \<Longrightarrow> d_of_int (- k) = d_neg (d_of_int k)"
  by (cases "0 < k") (simp_all add: d_of_int_def d_neg_round_mag)

lemma toFixed_neg:
  "x \<noteq> NaN \<Longrightarrow> d_eq (parseFloat_toFixed2 (d_neg x)) (d_neg (parseFloat_toFixed2 x))"
  by (cases x) (auto simp: round_mag_def overflow_def limit_def)

subsection \<open>Elapsed minutes\<close>

lemma rnd_of_int_bound:
  assumes "\<bar>k\<bar> \<le> 17280000000000000"
  shows "rnd (of_int \<bar>k\<bar>) \<le> 2 ^ 54"
proof -
  have "rat_of_int \<bar>k\<bar> \<le> 17280000000000000"
    using assms by (metis of_int_le_iff of_int_numeral)
  then have "rat_of_int \<bar>k\<bar> \<le> 2 powi 54" by simp
  then have "rnd (of_int \<bar>k\<bar>) \<le> 2 powi 54"
    by (intro rnd_le_pow2) simp_all
  then show ?thesis by simp
qed

lemma lt_limit: "x \<le> 2 ^ 54 \<Longrightarrow> x < limit"
proof -
  assume "x \<le> 2 ^ 54"
  moreover have "(2::rat) powi 54 < 2 powi 1024" by (intro pow2_strict_mono) simp
  ultimately show ?thesis by (simp add: limit_pow2)
qed

lemma elapsedMinutes_shape:
  assumes "valid_date start" and "valid_date now"
  shows "elapsedMinutes start now =
           Finite (now - start < 0) (rnd (rnd (rnd (of_int \<bar>now - start\<bar>) / 1000) / 60))"
proof -
  define k where "k = now - start"
  have k: "\<bar>k\<bar> \<le> 17280000000000000"
    using assms by (simp add: valid_date_def k_def)
  define a0 where "a0 = rnd (of_int \<bar>k\<bar>)"
  have a0: "0 \<le> a0" "a0 \<le> 2 ^ 54"
    using rnd_of_int_bound [OF k] by (simp_all add: a0_def rnd_nonneg)
  have 0: "d_of_int k = Finite (k < 0) a0"
    unfolding d_of_int_def a0_def by (intro round_mag_finite lt_limit rnd_of_int_bound k)
  define a1 where "a1 = rnd (a0 / 1000)"
  have "a0 / 1000 \<le> 2 powi 54" using a0 by simp
  then have "a1 \<le> 2 powi 54"
    unfolding a1_def using a0 by (intro rnd_le_pow2) simp_all
  then have a1: "0 \<le> a1" "a1 \<le> 2 ^ 54"
    using a0 by (simp_all add: a1_def rnd_nonneg)
  have 1: "d_div (Finite (k < 0) a0) (D 1000) = Finite (k < 0) a1"
    using lt_limit [OF a1(2)] by (simp add: D_1000 a1_def [symmetric] round_mag_finite)
  define a2 where "a2 = rnd (a1 / 60)"
  have "a1 / 60 \<le> 2 powi 54" using a1 by simp
  then have "a2 \<le> 2 powi 54"
    unfolding a2_def using a1 by (intro rnd_le_pow2) simp_all
  then have a2: "0 \<le> a2" "a2 \<le> 2 ^ 54"
    using a1 by (simp_all add: a2_def rnd_nonneg)
  have 2: "d_div (Finite (k < 0) a1) (D 60) = Finite (k < 0) a2"
    using lt_limit [OF a2(2)] by (simp add: D_60 a2_def [symmetric] round_mag_finite)
  show ?thesis
    unfolding elapsedMinutes_def k_def [symmetric] 0 1 2
    by (simp add: a2_def a1_def a0_def)
qed

lemma em_mag_mono:
  assumes "0 \<le> x" and "x \<le> y"
  shows "rnd (rnd (rnd x / 1000) / 60) \<le> rnd (rnd (rnd y / 1000) / 60)"
proof -
  have 1: "rnd x \<le> rnd y" using assms by (rule rnd_mono)
  have "0 \<le> rnd x / 1000" using assms(1) by (simp add: rnd_nonneg)
  moreover have "rnd x / 1000 \<le> rnd y / 1000" using 1 by simp
  ultimately have 2: "rnd (rnd x / 1000) \<le> rnd (rnd y / 1000)" by (rule rnd_mono)
  have "0 \<le> rnd (rnd x / 1000) / 60" using assms(1) by (simp add: rnd_nonneg)
  moreover have "rnd (rnd x / 1000) / 60 \<le> rnd (rnd y / 1000) / 60" using 2 by simp
  ultimately show ?thesis by (rule rnd_mono)
qed

lemma em_mag_nonneg: "0 \<le> x \<Longrightarrow> 0 \<le> rnd (rnd (rnd x / 1000) / 60)"
  by (simp add: rnd_nonneg)

lemma em_mag_pos:
  assumes "1 \<le> x"
  shows "0 < rnd (rnd (rnd x / 1000) / 60)"
proof -
  have "2 powi 0 \<le> x" using assms by simp
  then have "2 powi 0 \<le> rnd x" by (rule rnd_ge_pow2) simp
  then have "2 powi (- 10) \<le> rnd x / 1000" by simp
  then have "2 powi (- 10) \<le> rnd (rnd x / 1000)" by (rule rnd_ge_pow2) simp
  then have "2 powi (- 16) \<le> rnd (rnd x / 1000) / 60" by simp
  then show ?thesis by (rule rnd_pos) simp
qed

lemma earned_alt:
  "earned c start now =
     parseFloat_toFixed2 (d_mul (elapsedMinutes start now) (d_div (hourlyRate c) (D 60)))"
  by (simp add: earned_def hourlyRate_def elapsedMinutes_def Let_def)

subsection \<open>Two decimals\<close>

lemma ilog2_less:
  assumes "0 < x" and "x < 2 powi m"
  shows "ilog2 x < m"
proof -
  have "(2::rat) powi ilog2 x < 2 powi m"
    using ilog2_bounds(1) [OF assms(1)] assms(2) by linarith
  then show ?thesis by (rule pow2_less_imp)
qed

lemma toFixed_mag_nonneg: "0 \<le> (p::rat) \<Longrightarrow> 0 \<le> rnd (of_int \<lfloor>p * 100 + 1 / 2\<rfloor> / 100)"
  by (intro rnd_nonneg) simp

lemma toFixed_mag_mono:
  assumes "0 \<le> (p::rat)" and "p \<le> q"
  shows "rnd (of_int \<lfloor>p * 100 + 1 / 2\<rfloor> / 100) \<le> rnd (of_int \<lfloor>q * 100 + 1 / 2\<rfloor> / 100)"
proof -
  have "\<lfloor>p * 100 + 1 / 2\<rfloor> \<le> \<lfloor>q * 100 + 1 / 2\<rfloor>"
    using assms(2) by (intro floor_mono) simp
  then have le: "rat_of_int \<lfloor>p * 100 + 1 / 2\<rfloor> / 100 \<le> of_int \<lfloor>q * 100 + 1 / 2\<rfloor> / 100"
    by (simp add: divide_right_mono)
  have "0 \<le> rat_of_int \<lfloor>p * 100 + 1 / 2\<rfloor> / 100"
    using assms(1) by simp
  then show ?thesis using le by (rule rnd_mono)
qed

lemma toFixed_mag_le:
  assumes "0 \<le> (p::rat)" and "p < 10 ^ 21"
  shows "rnd (of_int \<lfloor>p * 100 + 1 / 2\<rfloor> / 100) \<le> 10 ^ 21"
proof -
  define x where "x = rat_of_int \<lfloor>p * 100 + 1 / 2\<rfloor> / 100"
  have "p * 100 + 1 / 2 < of_int (10 ^ 23) + 1" using assms(2) by simp
  then have "\<lfloor>p * 100 + 1 / 2\<rfloor> < 10 ^ 23 + 1" by (simp only: floor_less_iff of_int_add of_int_1)
  then have "\<lfloor>p * 100 + 1 / 2\<rfloor> \<le> 10 ^ 23" by simp
  then have "rat_of_int \<lfloor>p * 100 + 1 / 2\<rfloor> \<le> of_int (10 ^ 23)" by (simp only: of_int_le_iff)
  then have le: "x \<le> 10 ^ 21" by (simp add: x_def)
  have x0: "0 \<le> x" using assms(1) by (simp add: x_def)
  show ?thesis
  proof (cases "x = 0")
    case True
    then show ?thesis by (simp add: x_def [symmetric])
  next
    case False
    then have pos: "0 < x" using x0 by simp
    have "x < 2 powi 70" using le by simp
    then have "ilog2 x < 70" by (rule ilog2_less [OF pos])
    then have e: "expo x - 52 \<le> 21" by (simp add: expo_def)
    have "x \<le> of_int (5 ^ 21) * 2 powi 21" using le by simp
    then have "rnd x \<le> of_int (5 ^ 21) * 2 powi 21"
      using e by (intro rnd_le_grid pos)
    then show ?thesis by (simp add: x_def)
  qed
qed

lemma toFixed_overflow:
  assumes "0 \<le> p"
  shows "parseFloat_toFixed2 (overflow s p) =
           (if limit \<le> p then Infinity s
            else if 10 ^ 21 \<le> p then Finite s p
            else Finite (s \<and> p \<noteq> 0) (rnd (of_int \<lfloor>p * 100 + 1 / 2\<rfloor> / 100)))"
proof (cases "limit \<le> p")
  case True
  then show ?thesis by (simp add: overflow_def)
next
  case False
  note fin = this
  show ?thesis
  proof (cases "(10::rat) ^ 21 \<le> p")
    case True
    then show ?thesis using fin by (simp add: overflow_def)
  next
    case False
    then have "rnd (of_int \<lfloor>p * 100 + 1 / 2\<rfloor> / 100) \<le> 10 ^ 21"
      using assms by (intro toFixed_mag_le) simp_all
    also have "(10::rat) ^ 21 < limit" by (simp add: limit_def)
    finally have "round_mag (s \<and> p \<noteq> 0) (of_int \<lfloor>p * 100 + 1 / 2\<rfloor> / 100) =
        Finite (s \<and> p \<noteq> 0) (rnd (of_int \<lfloor>p * 100 + 1 / 2\<rfloor> / 100))"
      by (rule round_mag_finite)
    then show ?thesis using fin False by (simp add: overflow_def)
  qed
qed

lemma toFixed_mono:
  assumes "0 \<le> p" and "0 \<le> q"
    and "(if s then - p else p) \<le> (if t then - q else q)"
  shows "d_le (parseFloat_toFixed2 (overflow s p)) (parseFloat_toFixed2 (overflow t q))"
proof -
  define f where "f x = rnd (rat_of_int \<lfloor>x * 100 + 1 / 2\<rfloor> / 100)" for x :: rat
  have big: "(10::rat) ^ 21 < limit" by (simp add: limit_def)
  have fp: "0 \<le> f p" and fq: "0 \<le> f q"
    using assms by (simp_all add: f_def toFixed_mag_nonneg)
  have lep: "p < 10 ^ 21 \<Longrightarrow> f p \<le> 10 ^ 21" and leq: "q < 10 ^ 21 \<Longrightarrow> f q \<le> 10 ^ 21"
    using toFixed_mag_le [of p] toFixed_mag_le [of q] assms by (simp_all add: f_def)
  have mono1: "p \<le> q \<Longrightarrow> f p \<le> f q" and mono2: "q \<le> p \<Longrightarrow> f q \<le> f p"
    using assms by (simp_all add: f_def toFixed_mag_mono)
  have f0: "f 0 = 0" by (simp add: f_def)
  show ?thesis
    unfolding toFixed_overflow [OF assms(1)] toFixed_overflow [OF assms(2)] f_def [symmetric]
    using assms fp fq lep leq mono1 mono2 big f0
    by (cases s; cases t) (auto simp: not_le split: if_splits)
qed

subsection \<open>The hourly rate\<close>

lemma d_div_Finite_bound: "d_div x y = Finite s a \<Longrightarrow> a < limit"
  by (cases x; cases y)
    (auto simp: round_mag_def overflow_def limit_pos split: if_splits)

subsection \<open>Numbers that are not negative\<close>

lemma D_433n: "D (433 / 100) = Finite False (2437573298314281 / 562949953421312)"
  using D_433 by simp

lemma nonneg_round_mag: "0 \<le> q \<Longrightarrow> nonneg (round_mag False q)"
  by (simp add: round_mag_def overflow_def rnd_nonneg)

lemma nonneg_hourlyRate:
  assumes "has_values c S d w" and "0 < S" and "0 < d" and "0 < w"
  shows "nonneg (hourlyRate c)"
proof -
  have 1: "nonneg (d_mul (Finite False d) (Finite False w))"
    using assms by (simp add: nonneg_round_mag)
  have 2: "nonneg (d_mul (d_mul (Finite False d) (Finite False w)) (D 4.33))"
    using 1 by (cases "d_mul (Finite False d) (Finite False w)")
      (simp_all add: D_433n nonneg_round_mag)
  have "nonneg (d_div (Finite False S) (d_mul (d_mul (Finite False d) (Finite False w)) (D 4.33)))"
    using 2 assms(2)
    by (cases "d_mul (d_mul (Finite False d) (Finite False w)) (D 4.33)")
      (simp_all add: nonneg_round_mag)
  then show ?thesis
    using assms(1) by (simp add: hourlyRate_def has_values_def)
qed

lemma nonneg_div_60: "nonneg x \<Longrightarrow> nonneg (d_div x (D 60))"
  by (cases x) (simp_all add: D_60 nonneg_round_mag)

subsection \<open>Relative error\<close>

lemma close_to_exact: "0 \<le> x \<Longrightarrow> 0 \<le> e \<Longrightarrow> close_to e x x"
  by (simp add: close_to_def)







subsection \<open>One rounded operation\<close>








subsection \<open>The chain of the rate calculation\<close>






subsection \<open>The value of an output\<close>





subsection \<open>The chain of the settlement\<close>




section \<open>Evaluation at the scenarios\<close>

text \<open>
  Each step of the arithmetic at a concrete configuration, with the binary exponent and
  the 53-bit significand of the rounded result given and checked.
\<close>

lemma lit_1: "D 0.48 = Finite False (1080863910568919 / 2251799813685248)"
  by (simp add: D_def round_mag_def overflow_def limit_def rnd_cert [where e = "-2" and n = "8646911284551352"])

lemma lit_2: "D 28.87 = Finite False (8126182577636639 / 281474976710656)"
  by (simp add: D_def round_mag_def overflow_def limit_def rnd_cert [where e = "4" and n = "8126182577636639"])

lemma lit_3: "D 230.95 = Finite False (4062915366957875 / 17592186044416)"
  by (simp add: D_def round_mag_def overflow_def limit_def rnd_cert [where e = "7" and n = "8125830733915750"])

lemma lit_4: "D 173.2 = Finite False (3046966622892851 / 17592186044416)"
  by (simp add: D_def round_mag_def overflow_def limit_def rnd_cert [where e = "7" and n = "6093933245785702"])

lemma lit_5: "D 28.86 = Finite False (2030841956967383 / 70368744177664)"
  by (simp add: D_def round_mag_def overflow_def limit_def rnd_cert [where e = "4" and n = "8123367827869532"])

lemma lit_6: "D 230.88 = Finite False (2030841956967383 / 8796093022208)"
  by (simp add: D_def round_mag_def overflow_def limit_def rnd_cert [where e = "7" and n = "8123367827869532"])









lemma stepA_1: "D 4.33 = Finite False (2437573298314281 / 562949953421312)"
  by (simp add: D_def round_mag_def overflow_def limit_def rnd_cert [where e = "2" and n = "4875146596628562"])

lemma stepA_2: "D 60 = Finite False 60"
  by (simp add: D_def round_mag_def overflow_def limit_def rnd_cert [where e = "5" and n = "8444249301319680"])

lemma stepA_3: "D 100 = Finite False 100"
  by (simp add: D_def round_mag_def overflow_def limit_def rnd_cert [where e = "6" and n = "7036874417766400"])

lemma stepA_4: "d_mul (Finite False 8) (Finite False 5) = Finite False 40"
  by (simp add: round_mag_def overflow_def limit_def rnd_cert [where e = "5" and n = "5629499534213120"])

lemma stepA_5: "d_mul (Finite False 40) (Finite False (2437573298314281 / 562949953421312)) = Finite False (3046966622892851 / 17592186044416)"
  by (simp add: round_mag_def overflow_def limit_def rnd_cert_tie [where e = "7" and n = "6093933245785702"])

lemma stepA_6: "d_div (Finite False 5000) (Finite False (3046966622892851 / 17592186044416)) = Finite False (2031430259170439 / 70368744177664)"
  by (simp add: round_mag_def overflow_def limit_def rnd_cert [where e = "4" and n = "8125721036681756"])

lemma stepA_7: "d_div (Finite False (2031430259170439 / 70368744177664)) (Finite False 60) = Finite False (2166858943115135 / 4503599627370496)"
  by (simp add: round_mag_def overflow_def limit_def rnd_cert [where e = "-2" and n = "8667435772460540"])

lemma stepA_8: "d_mul (Finite False (2031430259170439 / 70368744177664)) (Finite False 8) = Finite False (2031430259170439 / 8796093022208)"
  by (simp add: round_mag_def overflow_def limit_def rnd_cert [where e = "7" and n = "8125721036681756"])

lemma stepA_9: "d_mul (Finite False (2166858943115135 / 4503599627370496)) (Finite False 100) = Finite False (6771434197234797 / 140737488355328)"
  by (simp add: round_mag_def overflow_def limit_def rnd_cert [where e = "5" and n = "6771434197234797"])

lemma stepA_10: "Math_round (Finite False (6771434197234797 / 140737488355328)) = Finite False 48"
  by (simp add: floor_eq_iff)

lemma stepA_11: "d_div (Finite False 48) (Finite False 100) = Finite False (1080863910568919 / 2251799813685248)"
  by (simp add: round_mag_def overflow_def limit_def rnd_cert [where e = "-2" and n = "8646911284551352"])

lemma stepA_12: "d_mul (Finite False (2031430259170439 / 70368744177664)) (Finite False 100) = Finite False (3174109779953811 / 1099511627776)"
  by (simp add: round_mag_def overflow_def limit_def rnd_cert [where e = "11" and n = "6348219559907622"])

lemma stepA_13: "Math_round (Finite False (3174109779953811 / 1099511627776)) = Finite False 2887"
  by (simp add: floor_eq_iff)

lemma stepA_14: "d_div (Finite False 2887) (Finite False 100) = Finite False (8126182577636639 / 281474976710656)"
  by (simp add: round_mag_def overflow_def limit_def rnd_cert [where e = "4" and n = "8126182577636639"])

lemma stepA_15: "d_mul (Finite False (2031430259170439 / 8796093022208)) (Finite False 100) = Finite False (3174109779953811 / 137438953472)"
  by (simp add: round_mag_def overflow_def limit_def rnd_cert [where e = "14" and n = "6348219559907622"])

lemma stepA_16: "Math_round (Finite False (3174109779953811 / 137438953472)) = Finite False 23095"
  by (simp add: floor_eq_iff)

lemma stepA_17: "d_div (Finite False 23095) (Finite False 100) = Finite False (4062915366957875 / 17592186044416)"
  by (simp add: round_mag_def overflow_def limit_def rnd_cert [where e = "7" and n = "8125830733915750"])

lemma stepA_18: "d_mul (Finite False (3046966622892851 / 17592186044416)) (Finite False 100) = Finite False 17320"
  by (simp add: round_mag_def overflow_def limit_def rnd_cert [where e = "14" and n = "4760885348270080"])

lemma stepA_19: "Math_round (Finite False 17320) = Finite False 17320"
  by (simp add: floor_eq_iff)

lemma stepA_20: "d_div (Finite False 17320) (Finite False 100) = Finite False (3046966622892851 / 17592186044416)"
  by (simp add: round_mag_def overflow_def limit_def rnd_cert [where e = "7" and n = "6093933245785702"])

lemma rates_A:
  "calculate_rates scenario_A =
     \<lparr> perMinute = D 0.48, perHour = D 28.87, perDay = D 230.95, monthlyHours = D 173.2 \<rparr>"
  by (simp only: calculate_rates_def Let_def scenario_A_def UserSettings.select_convs
      stepA_1 stepA_2 stepA_3 stepA_4 stepA_5 stepA_6 stepA_7 stepA_8 stepA_9 stepA_10 stepA_11 stepA_12 stepA_13 stepA_14 stepA_15 stepA_16 stepA_17 stepA_18 stepA_19 stepA_20 lit_1 lit_2 lit_3 lit_4)






















lemma stepZ_1: "D 4.33 = Finite False (2437573298314281 / 562949953421312)"
  by (simp add: D_def round_mag_def overflow_def limit_def rnd_cert [where e = "2" and n = "4875146596628562"])

lemma stepZ_2: "D 60 = Finite False 60"
  by (simp add: D_def round_mag_def overflow_def limit_def rnd_cert [where e = "5" and n = "8444249301319680"])

lemma stepZ_3: "D 100 = Finite False 100"
  by (simp add: D_def round_mag_def overflow_def limit_def rnd_cert [where e = "6" and n = "7036874417766400"])

lemma stepZ_4: "d_mul (Finite False 0) (Finite False 5) = Finite False 0"
  by (simp add: round_mag_def overflow_def limit_def)

lemma stepZ_5: "d_mul (Finite False 0) (Finite False (2437573298314281 / 562949953421312)) = Finite False 0"
  by (simp add: round_mag_def overflow_def limit_def)

lemma stepZ_6: "d_div (Finite False 5000) (Finite False 0) = Infinity False"
  by simp

lemma stepZ_7: "d_div (Infinity False) (Finite False 60) = Infinity False"
  by simp

lemma stepZ_8: "d_mul (Infinity False) (Finite False 0) = NaN"
  by simp

lemma stepZ_9: "d_mul (Infinity False) (Finite False 100) = Infinity False"
  by simp

lemma stepZ_10: "Math_round (Infinity False) = Infinity False"
  by simp

lemma stepZ_11: "d_div (Infinity False) (Finite False 100) = Infinity False"
  by simp

lemma stepZ_12: "d_mul (NaN) (Finite False 100) = NaN"
  by simp

lemma stepZ_13: "Math_round (NaN) = NaN"
  by simp

lemma stepZ_14: "d_div (NaN) (Finite False 100) = NaN"
  by simp

lemma stepZ_15: "d_mul (Finite False 0) (Finite False 100) = Finite False 0"
  by (simp add: round_mag_def overflow_def limit_def)

lemma stepZ_16: "Math_round (Finite False 0) = Finite False 0"
  by (simp add: floor_eq_iff)

lemma stepZ_17: "d_div (Finite False 0) (Finite False 100) = Finite False 0"
  by (simp add: round_mag_def overflow_def limit_def)

lemma rates_Z:
  "calculate_rates zero_hours =
     \<lparr> perMinute = (Infinity False), perHour = (Infinity False), perDay = (NaN), monthlyHours = (Finite False 0) \<rparr>"
  by (simp only: calculate_rates_def Let_def zero_hours_def UserSettings.select_convs
      stepZ_1 stepZ_2 stepZ_3 stepZ_4 stepZ_5 stepZ_6 stepZ_7 stepZ_8 stepZ_9 stepZ_10 stepZ_11 stepZ_12 stepZ_13 stepZ_14 stepZ_15 stepZ_16 stepZ_17 )

lemma hourlyRate_A:
  "hourlyRate scenario_A = Finite False (2031430259170439 / 70368744177664)"
  by (simp only: hourlyRate_def scenario_A_def UserSettings.select_convs stepA_1 stepA_2 stepA_3 stepA_4 stepA_5 stepA_6 stepA_7 stepA_8 stepA_9 stepA_10 stepA_11 stepA_12 stepA_13 stepA_14 stepA_15 stepA_16 stepA_17 stepA_18 stepA_19 stepA_20)

lemma stepE1_1: "D 4.33 = Finite False (2437573298314281 / 562949953421312)"
  by (simp add: D_def round_mag_def overflow_def limit_def rnd_cert [where e = "2" and n = "4875146596628562"])

lemma stepE1_2: "D 60 = Finite False 60"
  by (simp add: D_def round_mag_def overflow_def limit_def rnd_cert [where e = "5" and n = "8444249301319680"])

lemma stepE1_3: "D 1000 = Finite False 1000"
  by (simp add: D_def round_mag_def overflow_def limit_def rnd_cert [where e = "9" and n = "8796093022208000"])

lemma stepE1_4: "d_of_int 90000 = Finite False 90000"
  by (simp add: d_of_int_def round_mag_def overflow_def limit_def rnd_cert [where e = "16" and n = "6184752906240000"])

lemma stepE1_5: "d_div (Finite False 90000) (Finite False 1000) = Finite False 90"
  by (simp add: round_mag_def overflow_def limit_def rnd_cert [where e = "6" and n = "6333186975989760"])

lemma stepE1_6: "d_div (Finite False 90) (Finite False 60) = Finite False (3 / 2)"
  by (simp add: round_mag_def overflow_def limit_def rnd_cert [where e = "0" and n = "6755399441055744"])

lemma stepE1_7: "d_mul (Finite False 8) (Finite False 5) = Finite False 40"
  by (simp add: round_mag_def overflow_def limit_def rnd_cert [where e = "5" and n = "5629499534213120"])

lemma stepE1_8: "d_mul (Finite False 40) (Finite False (2437573298314281 / 562949953421312)) = Finite False (3046966622892851 / 17592186044416)"
  by (simp add: round_mag_def overflow_def limit_def rnd_cert_tie [where e = "7" and n = "6093933245785702"])

lemma stepE1_9: "d_div (Finite False 5000) (Finite False (3046966622892851 / 17592186044416)) = Finite False (2031430259170439 / 70368744177664)"
  by (simp add: round_mag_def overflow_def limit_def rnd_cert [where e = "4" and n = "8125721036681756"])

lemma stepE1_10: "d_div (Finite False (2031430259170439 / 70368744177664)) (Finite False 60) = Finite False (2166858943115135 / 4503599627370496)"
  by (simp add: round_mag_def overflow_def limit_def rnd_cert [where e = "-2" and n = "8667435772460540"])

lemma stepE1_11: "d_mul (Finite False (3 / 2)) (Finite False (2166858943115135 / 4503599627370496)) = Finite False (6500576829345405 / 9007199254740992)"
  by (simp add: round_mag_def overflow_def limit_def rnd_cert [where e = "-1" and n = "6500576829345405"])

lemma stepE1_12: "parseFloat_toFixed2 (Finite False (6500576829345405 / 9007199254740992)) = Finite False (3242591731706757 / 4503599627370496)"
  proof -
  have "\<lfloor>((6500576829345405 / 9007199254740992) :: rat) * 100 + 1 / 2\<rfloor> = 72"
    by (simp add: floor_eq_iff)
  then show ?thesis
    by (simp add: round_mag_def overflow_def limit_def rnd_cert [where e = "-1" and n = "6485183463413514"])
qed

lemma earned_A_90s:
  "earned scenario_A 60000 150000 = Finite False (3242591731706757 / 4503599627370496)"
proof -
  have d: "(150000::int) - 60000 = 90000"
    by simp
  show ?thesis
    by (simp only: earned_def Let_def scenario_A_def UserSettings.select_convs d
      stepE1_1 stepE1_2 stepE1_3 stepE1_4 stepE1_5 stepE1_6 stepE1_7 stepE1_8 stepE1_9 stepE1_10 stepE1_11 stepE1_12)
qed














lemma stepE3_1: "D 4.33 = Finite False (2437573298314281 / 562949953421312)"
  by (simp add: D_def round_mag_def overflow_def limit_def rnd_cert [where e = "2" and n = "4875146596628562"])

lemma stepE3_2: "D 60 = Finite False 60"
  by (simp add: D_def round_mag_def overflow_def limit_def rnd_cert [where e = "5" and n = "8444249301319680"])

lemma stepE3_3: "D 1000 = Finite False 1000"
  by (simp add: D_def round_mag_def overflow_def limit_def rnd_cert [where e = "9" and n = "8796093022208000"])

lemma stepE3_4: "d_of_int (- 60000) = Finite True 60000"
  by (simp add: d_of_int_def round_mag_def overflow_def limit_def rnd_cert [where e = "15" and n = "8246337208320000"])

lemma stepE3_5: "d_div (Finite True 60000) (Finite False 1000) = Finite True 60"
  by (simp add: round_mag_def overflow_def limit_def rnd_cert [where e = "5" and n = "8444249301319680"])

lemma stepE3_6: "d_div (Finite True 60) (Finite False 60) = Finite True 1"
  by (simp add: round_mag_def overflow_def limit_def rnd_cert [where e = "0" and n = "4503599627370496"])

lemma stepE3_7: "d_mul (Finite False 8) (Finite False 5) = Finite False 40"
  by (simp add: round_mag_def overflow_def limit_def rnd_cert [where e = "5" and n = "5629499534213120"])

lemma stepE3_8: "d_mul (Finite False 40) (Finite False (2437573298314281 / 562949953421312)) = Finite False (3046966622892851 / 17592186044416)"
  by (simp add: round_mag_def overflow_def limit_def rnd_cert_tie [where e = "7" and n = "6093933245785702"])

lemma stepE3_9: "d_div (Finite False 5000) (Finite False (3046966622892851 / 17592186044416)) = Finite False (2031430259170439 / 70368744177664)"
  by (simp add: round_mag_def overflow_def limit_def rnd_cert [where e = "4" and n = "8125721036681756"])

lemma stepE3_10: "d_div (Finite False (2031430259170439 / 70368744177664)) (Finite False 60) = Finite False (2166858943115135 / 4503599627370496)"
  by (simp add: round_mag_def overflow_def limit_def rnd_cert [where e = "-2" and n = "8667435772460540"])

lemma stepE3_11: "d_mul (Finite True 1) (Finite False (2166858943115135 / 4503599627370496)) = Finite True (2166858943115135 / 4503599627370496)"
  by (simp add: round_mag_def overflow_def limit_def rnd_cert [where e = "-2" and n = "8667435772460540"])

lemma stepE3_12: "parseFloat_toFixed2 (Finite True (2166858943115135 / 4503599627370496)) = Finite True (1080863910568919 / 2251799813685248)"
  proof -
  have "\<lfloor>((2166858943115135 / 4503599627370496) :: rat) * 100 + 1 / 2\<rfloor> = 48"
    by (simp add: floor_eq_iff)
  then show ?thesis
    by (simp add: round_mag_def overflow_def limit_def rnd_cert [where e = "-2" and n = "8646911284551352"])
qed

lemma earned_A_back:
  "earned scenario_A 60000 0 = Finite True (1080863910568919 / 2251799813685248)"
proof -
  have d: "(0::int) - 60000 = - 60000"
    by simp
  show ?thesis
    by (simp only: earned_def Let_def scenario_A_def UserSettings.select_convs d
      stepE3_1 stepE3_2 stepE3_3 stepE3_4 stepE3_5 stepE3_6 stepE3_7 stepE3_8 stepE3_9 stepE3_10 stepE3_11 stepE3_12)
qed

lemma stepE4_1: "D 4.33 = Finite False (2437573298314281 / 562949953421312)"
  by (simp add: D_def round_mag_def overflow_def limit_def rnd_cert [where e = "2" and n = "4875146596628562"])

lemma stepE4_2: "D 60 = Finite False 60"
  by (simp add: D_def round_mag_def overflow_def limit_def rnd_cert [where e = "5" and n = "8444249301319680"])

lemma stepE4_3: "D 1000 = Finite False 1000"
  by (simp add: D_def round_mag_def overflow_def limit_def rnd_cert [where e = "9" and n = "8796093022208000"])

lemma stepE4_4: "d_of_int 0 = Finite False 0"
  by (simp add: d_of_int_def round_mag_def overflow_def limit_def)

lemma stepE4_5: "d_div (Finite False 0) (Finite False 1000) = Finite False 0"
  by (simp add: round_mag_def overflow_def limit_def)

lemma stepE4_6: "d_div (Finite False 0) (Finite False 60) = Finite False 0"
  by (simp add: round_mag_def overflow_def limit_def)

lemma stepE4_7: "d_mul (Finite False 8) (Finite False 5) = Finite False 40"
  by (simp add: round_mag_def overflow_def limit_def rnd_cert [where e = "5" and n = "5629499534213120"])

lemma stepE4_8: "d_mul (Finite False 40) (Finite False (2437573298314281 / 562949953421312)) = Finite False (3046966622892851 / 17592186044416)"
  by (simp add: round_mag_def overflow_def limit_def rnd_cert_tie [where e = "7" and n = "6093933245785702"])

lemma stepE4_9: "d_div (Finite False 5000) (Finite False (3046966622892851 / 17592186044416)) = Finite False (2031430259170439 / 70368744177664)"
  by (simp add: round_mag_def overflow_def limit_def rnd_cert [where e = "4" and n = "8125721036681756"])

lemma stepE4_10: "d_div (Finite False (2031430259170439 / 70368744177664)) (Finite False 60) = Finite False (2166858943115135 / 4503599627370496)"
  by (simp add: round_mag_def overflow_def limit_def rnd_cert [where e = "-2" and n = "8667435772460540"])

lemma stepE4_11: "d_mul (Finite False 0) (Finite False (2166858943115135 / 4503599627370496)) = Finite False 0"
  by (simp add: round_mag_def overflow_def limit_def)

lemma stepE4_12: "parseFloat_toFixed2 (Finite False 0) = Finite False 0"
  proof -
  have "\<lfloor>(0 :: rat) * 100 + 1 / 2\<rfloor> = 0"
    by (simp add: floor_eq_iff)
  then show ?thesis
    by (simp add: round_mag_def overflow_def limit_def)
qed

lemma earned_A_0:
  "earned scenario_A 0 0 = Finite False 0"
proof -
  have d: "(0::int) - 0 = 0"
    by simp
  show ?thesis
    by (simp only: earned_def Let_def scenario_A_def UserSettings.select_convs d
      stepE4_1 stepE4_2 stepE4_3 stepE4_4 stepE4_5 stepE4_6 stepE4_7 stepE4_8 stepE4_9 stepE4_10 stepE4_11 stepE4_12)
qed

lemma stepE5_1: "D 4.33 = Finite False (2437573298314281 / 562949953421312)"
  by (simp add: D_def round_mag_def overflow_def limit_def rnd_cert [where e = "2" and n = "4875146596628562"])

lemma stepE5_2: "D 60 = Finite False 60"
  by (simp add: D_def round_mag_def overflow_def limit_def rnd_cert [where e = "5" and n = "8444249301319680"])

lemma stepE5_3: "D 1000 = Finite False 1000"
  by (simp add: D_def round_mag_def overflow_def limit_def rnd_cert [where e = "9" and n = "8796093022208000"])

lemma stepE5_4: "d_of_int 1 = Finite False 1"
  by (simp add: d_of_int_def round_mag_def overflow_def limit_def rnd_cert [where e = "0" and n = "4503599627370496"])

lemma stepE5_5: "d_div (Finite False 1) (Finite False 1000) = Finite False (1152921504606847 / 1152921504606846976)"
  by (simp add: round_mag_def overflow_def limit_def rnd_cert [where e = "-10" and n = "4611686018427388"])

lemma stepE5_6: "d_div (Finite False (1152921504606847 / 1152921504606846976)) (Finite False 60) = Finite False (2459565876494607 / 147573952589676412928)"
  by (simp add: round_mag_def overflow_def limit_def rnd_cert [where e = "-16" and n = "4919131752989214"])

lemma stepE5_7: "d_mul (Finite False 8) (Finite False 5) = Finite False 40"
  by (simp add: round_mag_def overflow_def limit_def rnd_cert [where e = "5" and n = "5629499534213120"])

lemma stepE5_8: "d_mul (Finite False 40) (Finite False (2437573298314281 / 562949953421312)) = Finite False (3046966622892851 / 17592186044416)"
  by (simp add: round_mag_def overflow_def limit_def rnd_cert_tie [where e = "7" and n = "6093933245785702"])

lemma stepE5_9: "d_div (Finite False 5000) (Finite False (3046966622892851 / 17592186044416)) = Finite False (2031430259170439 / 70368744177664)"
  by (simp add: round_mag_def overflow_def limit_def rnd_cert [where e = "4" and n = "8125721036681756"])

lemma stepE5_10: "d_div (Finite False (2031430259170439 / 70368744177664)) (Finite False 60) = Finite False (2166858943115135 / 4503599627370496)"
  by (simp add: round_mag_def overflow_def limit_def rnd_cert [where e = "-2" and n = "8667435772460540"])

lemma stepE5_11: "d_mul (Finite False (2459565876494607 / 147573952589676412928)) (Finite False (2166858943115135 / 4503599627370496)) = Finite False (2366787794933225 / 295147905179352825856)"
  by (simp add: round_mag_def overflow_def limit_def rnd_cert [where e = "-17" and n = "4733575589866450"])

lemma stepE5_12: "parseFloat_toFixed2 (Finite False (2366787794933225 / 295147905179352825856)) = Finite False 0"
  proof -
  have "\<lfloor>((2366787794933225 / 295147905179352825856) :: rat) * 100 + 1 / 2\<rfloor> = 0"
    by (simp add: floor_eq_iff)
  then show ?thesis
    by (simp add: round_mag_def overflow_def limit_def)
qed

lemma earned_A_1ms:
  "earned scenario_A 0 1 = Finite False 0"
proof -
  have d: "(1::int) - 0 = 1"
    by simp
  show ?thesis
    by (simp only: earned_def Let_def scenario_A_def UserSettings.select_convs d
      stepE5_1 stepE5_2 stepE5_3 stepE5_4 stepE5_5 stepE5_6 stepE5_7 stepE5_8 stepE5_9 stepE5_10 stepE5_11 stepE5_12)
qed

lemma stepE6_1: "D 4.33 = Finite False (2437573298314281 / 562949953421312)"
  by (simp add: D_def round_mag_def overflow_def limit_def rnd_cert [where e = "2" and n = "4875146596628562"])

lemma stepE6_2: "D 60 = Finite False 60"
  by (simp add: D_def round_mag_def overflow_def limit_def rnd_cert [where e = "5" and n = "8444249301319680"])

lemma stepE6_3: "D 1000 = Finite False 1000"
  by (simp add: D_def round_mag_def overflow_def limit_def rnd_cert [where e = "9" and n = "8796093022208000"])

lemma stepE6_4: "d_of_int 60000 = Finite False 60000"
  by (simp add: d_of_int_def round_mag_def overflow_def limit_def rnd_cert [where e = "15" and n = "8246337208320000"])

lemma stepE6_5: "d_div (Finite False 60000) (Finite False 1000) = Finite False 60"
  by (simp add: round_mag_def overflow_def limit_def rnd_cert [where e = "5" and n = "8444249301319680"])

lemma stepE6_6: "d_div (Finite False 60) (Finite False 60) = Finite False 1"
  by (simp add: round_mag_def overflow_def limit_def rnd_cert [where e = "0" and n = "4503599627370496"])

lemma stepE6_7: "d_mul (Finite False 8) (Finite False 5) = Finite False 40"
  by (simp add: round_mag_def overflow_def limit_def rnd_cert [where e = "5" and n = "5629499534213120"])

lemma stepE6_8: "d_mul (Finite False 40) (Finite False (2437573298314281 / 562949953421312)) = Finite False (3046966622892851 / 17592186044416)"
  by (simp add: round_mag_def overflow_def limit_def rnd_cert_tie [where e = "7" and n = "6093933245785702"])

lemma stepE6_9: "d_div (Finite False 5000) (Finite False (3046966622892851 / 17592186044416)) = Finite False (2031430259170439 / 70368744177664)"
  by (simp add: round_mag_def overflow_def limit_def rnd_cert [where e = "4" and n = "8125721036681756"])

lemma stepE6_10: "d_div (Finite False (2031430259170439 / 70368744177664)) (Finite False 60) = Finite False (2166858943115135 / 4503599627370496)"
  by (simp add: round_mag_def overflow_def limit_def rnd_cert [where e = "-2" and n = "8667435772460540"])

lemma stepE6_11: "d_mul (Finite False 1) (Finite False (2166858943115135 / 4503599627370496)) = Finite False (2166858943115135 / 4503599627370496)"
  by (simp add: round_mag_def overflow_def limit_def rnd_cert [where e = "-2" and n = "8667435772460540"])

lemma stepE6_12: "parseFloat_toFixed2 (Finite False (2166858943115135 / 4503599627370496)) = Finite False (1080863910568919 / 2251799813685248)"
  proof -
  have "\<lfloor>((2166858943115135 / 4503599627370496) :: rat) * 100 + 1 / 2\<rfloor> = 48"
    by (simp add: floor_eq_iff)
  then show ?thesis
    by (simp add: round_mag_def overflow_def limit_def rnd_cert [where e = "-2" and n = "8646911284551352"])
qed

lemma earned_A_60s:
  "earned scenario_A 0 60000 = Finite False (1080863910568919 / 2251799813685248)"
proof -
  have d: "(60000::int) - 0 = 60000"
    by simp
  show ?thesis
    by (simp only: earned_def Let_def scenario_A_def UserSettings.select_convs d
      stepE6_1 stepE6_2 stepE6_3 stepE6_4 stepE6_5 stepE6_6 stepE6_7 stepE6_8 stepE6_9 stepE6_10 stepE6_11 stepE6_12)
qed

section \<open>The store and the handlers\<close>

subsection \<open>The store\<close>

lemma spread_settle:
  "spread session (no_fields\<lparr> totalEarned_P := Some e, sessionEnd_P := Some (Some n),
                                isActive_P := Some False \<rparr>) =
     session\<lparr> sessionEnd := Some n, totalEarned := e, isActive := False \<rparr>"
  by (cases session) (simp add: spread_def no_fields_def)

lemma getActiveSession_Some:
  assumes "getActiveSession st uid = Some s"
  shows "s \<in> snd ` set (incomeSessions st) \<and> userSettingsId s = uid \<and> isActive s"
proof -
  from assms obtain k where "k < length (map snd (incomeSessions st))"
    and "userSettingsId (map snd (incomeSessions st) ! k) = uid \<and> isActive (map snd (incomeSessions st) ! k)"
    and "s = map snd (incomeSessions st) ! k"
    unfolding getActiveSession_def find_Some_iff by blast
  then show ?thesis
    by (metis nth_mem set_map)
qed

lemma getActiveSession_None:
  "getActiveSession st uid = None \<longleftrightarrow>
     \<not> (\<exists>s \<in> snd ` set (incomeSessions st). userSettingsId s = uid \<and> isActive s)"
  unfolding getActiveSession_def find_None_iff by auto


lemma delete_settled:
  assumes "getIncomeSessionById st i = Some session" and "isActive session"
    and "getUserSettingsById st (userSettingsId session) = Some c"
    and "earned c (sessionStart session) now \<noteq> NaN"
  shows "delete_income_session st i now =
           (Response 200
              (Session (session\<lparr> sessionEnd := Some now,
                                 totalEarned := earned c (sessionStart session) now,
                                 isActive := False \<rparr>)),
            st\<lparr> incomeSessions :=
                  AList.update i
                    (session\<lparr> sessionEnd := Some now,
                              totalEarned := earned c (sessionStart session) now,
                              isActive := False \<rparr>)
                    (incomeSessions st) \<rparr>)"
proof -
  have m: "map_of (incomeSessions st) i = Some session"
    using assms(1) by (simp add: getIncomeSessionById_def)
  show ?thesis
    using assms m
    by (simp add: delete_income_session_def updateIncomeSession_Mongo_def
        updateIncomeSession_def spread_settle Let_def)
qed

lemma delete_not_stored:
  assumes "getIncomeSessionById st i = Some session" and "isActive session"
    and "getUserSettingsById st (userSettingsId session) = Some c"
    and "earned c (sessionStart session) now = NaN"
  shows "delete_income_session st i now = (Response 200 Undefined, st)"
  using assms
  by (simp add: delete_income_session_def updateIncomeSession_Mongo_def)


subsection \<open>Numbers that are not finite\<close>

lemma not_finite_div_zero: "\<not> is_finite (d_div x (Finite s 0))"
  by (cases x) simp_all

lemma not_finite_div: "\<not> is_finite x \<Longrightarrow> \<not> is_finite (d_div x (Finite s a))"
  by (cases x) simp_all

lemma not_finite_mul_left: "\<not> is_finite x \<Longrightarrow> \<not> is_finite (d_mul x y)"
  by (cases x; cases y) simp_all

lemma not_finite_round: "\<not> is_finite x \<Longrightarrow> \<not> is_finite (Math_round x)"
  by (cases x) simp_all

lemma not_finite_output:
  "\<not> is_finite x \<Longrightarrow> \<not> is_finite (d_div (Math_round (d_mul x (D 100))) (D 100))"
  by (simp add: D_100 not_finite_div not_finite_round not_finite_mul_left)

lemma zero_output:
  "d_div (Math_round (d_mul (Finite s 0) (D 100))) (D 100) = Finite s 0"
  by (simp add: D_100)

section \<open>Properties of the rate calculation\<close>




text \<open>
  C3. For the configuration \<open>{monthlySalary: 5000, dailyHours: 8, weeklyDays: 5}\<close> the
  rate calculation gives \<open>monthlyHours = 173.2\<close> and \<open>perMinute = 0.48\<close>, as the
  specification says, but \<open>perHour = 28.87\<close> and \<open>perDay = 230.95\<close>: the hourly
  rate is \<open>5000 / 173.2 = 28.868...\<close>, which rounds up, and the daily rate is eight
  times the unrounded hourly rate. The values \<open>28.86\<close> and \<open>230.88\<close> of the
  specification are not what the code returns. (An output \<open>D 0.48\<close> is the double
  nearest to \<open>0.48\<close>, which is what JSON prints as \<^verbatim>\<open>0.48\<close>.)
\<close>

theorem C3_scenario_A:
  "calculate_rates \<lparr> id_US = i, monthlySalary = Finite False 5000, dailyHours = Finite False 8,
                      weeklyDays = Finite False 5, isHoliday = hol, createdAt = ca,
                      updatedAt = ua \<rparr> =
     \<lparr> perMinute = D 0.48, perHour = D 28.87, perDay = D 230.95, monthlyHours = D 173.2 \<rparr>"
  by (simp only: calculate_rates_def Let_def UserSettings.select_convs
      stepA_1 stepA_2 stepA_3 stepA_4 stepA_5 stepA_6 stepA_7 stepA_8 stepA_9 stepA_10 stepA_11 stepA_12 stepA_13 stepA_14 stepA_15 stepA_16 stepA_17 stepA_18 stepA_19 stepA_20 lit_1 lit_2 lit_3 lit_4)

theorem C3_scenario_A_counterexample:
  "get_calculate_rates store_A ''A'' \<noteq>
     Response 200 (Rates \<lparr> perMinute = D 0.48, perHour = D 28.86, perDay = D 230.88,
                           monthlyHours = D 173.2 \<rparr>)"
proof -
  have "getUserSettings store_A ''A'' = Some scenario_A"
    by (simp add: getUserSettings_def store_A_def)
  then have "get_calculate_rates store_A ''A'' = Response 200 (Rates (calculate_rates scenario_A))"
    by (simp add: get_calculate_rates_def)
  moreover have "D 28.87 \<noteq> D 28.86"
    unfolding lit_2 lit_5 by simp
  ultimately show ?thesis
    by (simp add: rates_A)
qed

text \<open>
  C4. For a stored configuration whose product \<open>dailyHours * weeklyDays * 4.33\<close>, as
  the code computes it, is zero, the rate calculation raises no error: it answers
  with status 200, with \<open>monthlyHours\<close> zero and with \<open>perMinute\<close>, \<open>perHour\<close> and
  \<open>perDay\<close> not finite (\<^verbatim>\<open>Infinity\<close> or \<^verbatim>\<open>NaN\<close>, which JSON prints as
  \<^verbatim>\<open>null\<close>). The code has no \<^verbatim>\<open>InvalidConfiguration\<close> error.
\<close>

theorem C4_zero:
  assumes "getUserSettings st uid = Some c"
    and "d_mul (d_mul (dailyHours c) (weeklyDays c)) (D 4.33) = Finite s 0"
  shows "\<exists>r. get_calculate_rates st uid = Response 200 (Rates r) \<and>
           \<not> is_finite (perMinute r) \<and> \<not> is_finite (perHour r) \<and> \<not> is_finite (perDay r) \<and>
           monthlyHours r = Finite s 0"
proof -
  define h where "h = d_div (monthlySalary c) (Finite s 0)"
  have h: "\<not> is_finite h" unfolding h_def by (rule not_finite_div_zero)
  have m: "\<not> is_finite (d_div h (D 60))"
    using h by (simp add: D_60 not_finite_div)
  have dr: "\<not> is_finite (d_mul h (dailyHours c))"
    using h by (rule not_finite_mul_left)
  have "calculate_rates c =
      \<lparr> perMinute = d_div (Math_round (d_mul (d_div h (D 60)) (D 100))) (D 100),
        perHour = d_div (Math_round (d_mul h (D 100))) (D 100),
        perDay = d_div (Math_round (d_mul (d_mul h (dailyHours c)) (D 100))) (D 100),
        monthlyHours = Finite s 0 \<rparr>"
    by (simp only: calculate_rates_def Let_def assms(2) h_def zero_output)
  then show ?thesis
    using assms(1) h m dr by (simp add: get_calculate_rates_def not_finite_output)
qed

theorem C4_zero_witness:
  "\<exists>r. get_calculate_rates
          \<lparr> userSettings = [(''W'', scenario_A\<lparr> weeklyDays := Finite False 0 \<rparr>)],
            incomeSessions = [] \<rparr> ''W'' = Response 200 (Rates r) \<and>
        \<not> is_finite (perMinute r) \<and> \<not> is_finite (perHour r) \<and> \<not> is_finite (perDay r) \<and>
        monthlyHours r = Finite False 0"
proof -
  have 1: "getUserSettings
             \<lparr> userSettings = [(''W'', scenario_A\<lparr> weeklyDays := Finite False 0 \<rparr>)],
               incomeSessions = [] \<rparr> ''W'' =
           Some (scenario_A\<lparr> weeklyDays := Finite False 0 \<rparr>)"
    by (simp add: getUserSettings_def)
  have 2: "d_mul (d_mul (dailyHours (scenario_A\<lparr> weeklyDays := Finite False 0 \<rparr>))
                        (weeklyDays (scenario_A\<lparr> weeklyDays := Finite False 0 \<rparr>))) (D 4.33) =
           Finite False 0"
    by (simp add: scenario_A_def D_433n)
  show ?thesis
    using C4_zero [OF 1 2] .
qed

theorem C4_zero_counterexample:
  "get_calculate_rates store_A ''Z'' =
     Response 200 (Rates \<lparr> perMinute = Infinity False, perHour = Infinity False,
                           perDay = NaN, monthlyHours = Finite False 0 \<rparr>)"
proof -
  have "getUserSettings store_A ''Z'' = Some zero_hours"
    by (simp add: getUserSettings_def store_A_def)
  then show ?thesis
    by (simp add: get_calculate_rates_def rates_Z)
qed




section \<open>Properties of the settlement\<close>




text \<open>
  C5. When the settlement instant is earlier than the session start, the elapsed
  time is negative and is not clamped: for a configuration of finite positive
  numbers and valid dates, the amount equals (by \<^verbatim>\<open>===\<close>) the negation of the amount
  that the same span of time earns forwards, and it is never positive. In Scenario A
  a session settled one minute before its start is stored with
  \<open>totalEarned = -0.48\<close>.
\<close>

theorem C5_negative:
  assumes "has_values c S d w" and "0 < S" and "0 < d" and "0 < w"
    and "valid_date start" and "valid_date now" and "now < start"
  shows "d_eq (earned c start now) (d_neg (earned c now start)) \<and>
         d_le (earned c start now) (Finite False 0)"
proof -
  define a where "a = rnd (rnd (rnd (rat_of_int \<bar>now - start\<bar>) / 1000) / 60)"
  have "1 \<le> \<bar>now - start\<bar>"
    using assms(7) by linarith
  then have "rat_of_int 1 \<le> of_int \<bar>now - start\<bar>"
    by (simp only: of_int_le_iff)
  then have "1 \<le> rat_of_int \<bar>now - start\<bar>"
    by simp
  then have a: "0 < a" unfolding a_def by (rule em_mag_pos)
  have bwd: "elapsedMinutes start now = Finite True a"
    using elapsedMinutes_shape [OF assms(5,6)] assms(7) by (simp add: a_def)
  have "\<bar>start - now\<bar> = \<bar>now - start\<bar>" by simp
  then have fwd: "elapsedMinutes now start = Finite False a"
    using elapsedMinutes_shape [OF assms(6,5)] assms(7) by (simp add: a_def)
  define r where "r = d_div (hourlyRate c) (D 60)"
  have r: "nonneg r"
    unfolding r_def by (intro nonneg_div_60 nonneg_hourlyRate [OF assms(1-4)])
  define F where "F = d_mul (Finite False a) r"
  have B: "d_mul (Finite True a) r = d_neg F"
    using d_mul_neg [of "Finite False a" r] by (simp add: F_def)
  have eb: "earned c start now = parseFloat_toFixed2 (d_neg F)"
    by (simp add: earned_alt bwd r_def [symmetric] B)
  have ef: "earned c now start = parseFloat_toFixed2 F"
    by (simp add: earned_alt fwd r_def [symmetric] F_def)
  have shape: "(\<exists>p. 0 \<le> p \<and> F = overflow False p) \<or> F = Infinity False"
  proof (cases r)
    case (Finite s b)
    then have "\<not> s" "0 \<le> b" using r by simp_all
    then have "F = overflow False (rnd (a * b))"
      by (simp add: F_def Finite round_mag_def)
    moreover have "0 \<le> rnd (a * b)"
      using a \<open>0 \<le> b\<close> by (intro rnd_nonneg) simp
    ultimately show ?thesis by blast
  next
    case (Infinity s)
    then show ?thesis using r a by (simp add: F_def)
  next
    case NaN
    then show ?thesis using r by simp
  qed
  then have nn: "F \<noteq> NaN"
    by (auto simp: overflow_def split: if_splits)
  have 1: "d_eq (earned c start now) (d_neg (earned c now start))"
    unfolding eb ef using nn by (rule toFixed_neg)
  have z: "parseFloat_toFixed2 (overflow False 0) = Finite False 0"
    by (simp add: overflow_def limit_def)
  have 2: "d_le (earned c start now) (Finite False 0)"
    using shape
  proof
    assume "\<exists>p. 0 \<le> p \<and> F = overflow False p"
    then obtain p where p: "0 \<le> p" "F = overflow False p" by blast
    have "d_le (parseFloat_toFixed2 (overflow True p)) (parseFloat_toFixed2 (overflow False 0))"
      using p(1) by (intro toFixed_mono) simp_all
    then show ?thesis
      by (simp add: eb p(2) d_neg_overflow z)
  next
    assume "F = Infinity False"
    then show ?thesis by (simp add: eb)
  qed
  show ?thesis using 1 2 by simp
qed

theorem C5_negative_witness:
  "d_eq (earned scenario_A 60000 0) (d_neg (earned scenario_A 0 60000)) \<and>
   d_le (earned scenario_A 60000 0) (Finite False 0)"
proof -
  have 1: "has_values scenario_A 5000 8 5"
    by (simp add: has_values_def scenario_A_def)
  have 2: "(0::rat) < 5000" and 3: "(0::rat) < 8" and 4: "(0::rat) < 5"
    by simp_all
  have 5: "valid_date 60000" and 6: "valid_date 0" and 7: "(0::int) < 60000"
    by (simp_all add: valid_date_def)
  show ?thesis
    using C5_negative [OF 1 2 3 4 5 6 7] .
qed

theorem C5_negative_counterexample:
  "sessionStart session_1 = 60000 \<and>
   fst (delete_income_session store_A ''s1'' 0) =
     Response 200
       (Session \<lparr> id_IS = ''s1'', userSettingsId = ''A'', sessionStart = 60000,
                  sessionEnd = Some 0, totalEarned = d_neg (D 0.48), isActive = False \<rparr>)"
proof -
  have 1: "getIncomeSessionById store_A ''s1'' = Some session_1"
    by (simp add: getIncomeSessionById_def store_A_def)
  have 2: "isActive session_1"
    by (simp add: session_1_def)
  have 3: "getUserSettingsById store_A (userSettingsId session_1) = Some scenario_A"
    by (simp add: getUserSettingsById_def getUserSettings_def store_A_def session_1_def)
  have s: "sessionStart session_1 = 60000"
    by (simp add: session_1_def)
  have e: "earned scenario_A (sessionStart session_1) 0 = d_neg (D 0.48)"
    unfolding s earned_A_back lit_1 by simp
  have 4: "earned scenario_A (sessionStart session_1) 0 \<noteq> NaN"
    unfolding s by (simp add: earned_A_back)
  show ?thesis
    unfolding delete_settled [OF 1 2 3 4] e by (simp add: session_1_def)
qed

text \<open>
  C7. Settlement is monotonic in the elapsed time, but not strictly: for a
  configuration whose hourly rate, as the handler computes it, is a positive finite
  number, and valid dates with \<open>t1 \<le> t2\<close> measured from the same start, the amount
  at \<open>t1\<close> is less than or equal to (by \<^verbatim>\<open><=\<close>) the amount at \<open>t2\<close>. Rounding to
  cents makes nearby instants earn the same: in Scenario A both 0 ms and 1 ms
  earn \<open>0\<close>.
\<close>

theorem C7_monotonic:
  assumes "hourlyRate c = Finite False h" and "0 < h"
    and "valid_date start" and "valid_date t1" and "valid_date t2"
    and "t1 \<le> t2"
  shows "d_le (earned c start t1) (earned c start t2)"
proof -
  have "h < limit"
    using assms(1) unfolding hourlyRate_def by (rule d_div_Finite_bound)
  then have "h / 60 \<le> 2 powi 1023"
    by (simp add: limit_def)
  moreover have h60: "0 \<le> h / 60" using assms(2) by simp
  ultimately have "round_mag False (h / 60) = Finite False (rnd (h / 60))"
    by (intro round_mag_small)
  then have rate: "d_div (hourlyRate c) (D 60) = Finite False (rnd (h / 60))"
    by (simp add: assms(1) D_60)
  define r where "r = rnd (h / 60)"
  have r: "0 \<le> r" unfolding r_def using h60 by (rule rnd_nonneg)
  define a where "a t = rnd (rnd (rnd (rat_of_int \<bar>t - start\<bar>) / 1000) / 60)" for t
  have a: "0 \<le> a t" for t by (simp add: a_def rnd_nonneg)
  have e: "earned c start t = parseFloat_toFixed2 (overflow (t - start < 0) (rnd (a t * r)))"
    if "valid_date t" for t
    unfolding earned_alt rate elapsedMinutes_shape [OF assms(3) that]
    by (simp add: round_mag_def a_def r_def)
  have p: "0 \<le> rnd (a t * r)" for t
    using a [of t] r by (intro rnd_nonneg) simp
  have s: "(if t1 - start < 0 then - rnd (a t1 * r) else rnd (a t1 * r))
      \<le> (if t2 - start < 0 then - rnd (a t2 * r) else rnd (a t2 * r))"
  proof (cases "t2 - start < 0")
    case True
    then have neg1: "t1 - start < 0" using assms(6) by linarith
    have "\<bar>t2 - start\<bar> \<le> \<bar>t1 - start\<bar>"
      using True assms(6) by linarith
    then have "rat_of_int \<bar>t2 - start\<bar> \<le> of_int \<bar>t1 - start\<bar>"
      by (simp only: of_int_le_iff)
    then have "a t2 \<le> a t1"
      unfolding a_def by (intro em_mag_mono) simp_all
    then have "a t2 * r \<le> a t1 * r" using r by (rule mult_right_mono)
    moreover have "0 \<le> a t2 * r" using a [of t2] r by simp
    ultimately have "rnd (a t2 * r) \<le> rnd (a t1 * r)" by (intro rnd_mono)
    then show ?thesis using True neg1 by simp
  next
    case False
    note pos2 = this
    show ?thesis
    proof (cases "t1 - start < 0")
      case True
      then show ?thesis using pos2 p [of t1] p [of t2] by simp
    next
      case False
      have "\<bar>t1 - start\<bar> \<le> \<bar>t2 - start\<bar>"
        using False assms(6) by linarith
      then have "rat_of_int \<bar>t1 - start\<bar> \<le> of_int \<bar>t2 - start\<bar>"
        by (simp only: of_int_le_iff)
      then have "a t1 \<le> a t2"
        unfolding a_def by (intro em_mag_mono) simp_all
      then have "a t1 * r \<le> a t2 * r" using r by (rule mult_right_mono)
      moreover have "0 \<le> a t1 * r" using a [of t1] r by simp
      ultimately have "rnd (a t1 * r) \<le> rnd (a t2 * r)" by (intro rnd_mono)
      then show ?thesis using False pos2 by simp
    qed
  qed
  show ?thesis
    unfolding e [OF assms(4)] e [OF assms(5)]
    using p [of t1] p [of t2] s by (rule toFixed_mono)
qed

theorem C7_monotonic_witness:
  "d_le (earned scenario_A 0 0) (earned scenario_A 0 60000)"
proof -
  have 1: "(0::rat) < 2031430259170439 / 70368744177664"
    by simp
  have 2: "valid_date 0" and 3: "valid_date 60000" and 4: "(0::int) \<le> 60000"
    by (simp_all add: valid_date_def)
  show ?thesis
    using C7_monotonic [OF hourlyRate_A 1 2 2 3 4] .
qed

theorem C7_monotonic_counterexample:
  "(0::int) < 1 \<and>
   hourlyRate scenario_A = Finite False (2031430259170439 / 70368744177664) \<and>
   earned scenario_A 0 0 = Finite False 0 \<and> earned scenario_A 0 1 = Finite False 0"
  by (simp add: hourlyRate_A earned_A_0 earned_A_1ms)

section \<open>Properties of starting, ending and updating a session\<close>

text \<open>
  C8. Starting a session for a (non-empty) configuration id is get-or-create: if the
  store holds an active session for that id, such a session is returned and the
  store is left as it was; otherwise a new session with \<open>sessionStart = now\<close>,
  \<open>totalEarned = 0\<close> and \<open>isActive = true\<close> is stored under the new id and returned.
\<close>

theorem C8_get_or_create:
  assumes "uid \<noteq> []"
  shows "((\<exists>s \<in> snd ` set (incomeSessions st). userSettingsId s = uid \<and> isActive s) \<longrightarrow>
            (\<exists>s \<in> snd ` set (incomeSessions st). userSettingsId s = uid \<and> isActive s \<and>
               post_income_session st (Some uid) new_id now = (Response 200 (Session s), st))) \<and>
         (\<not> (\<exists>s \<in> snd ` set (incomeSessions st). userSettingsId s = uid \<and> isActive s) \<longrightarrow>
            post_income_session st (Some uid) new_id now =
              (Response 200
                 (Session \<lparr> id_IS = new_id, userSettingsId = uid, sessionStart = now,
                            sessionEnd = None, totalEarned = Finite False 0, isActive = True \<rparr>),
               st\<lparr> incomeSessions :=
                     AList.update new_id
                       \<lparr> id_IS = new_id, userSettingsId = uid, sessionStart = now,
                         sessionEnd = None, totalEarned = Finite False 0, isActive = True \<rparr>
                       (incomeSessions st) \<rparr>))"
proof (cases "getActiveSession st uid")
  case None
  then have "post_income_session st (Some uid) new_id now =
      (Response 200
         (Session \<lparr> id_IS = new_id, userSettingsId = uid, sessionStart = now,
                    sessionEnd = None, totalEarned = Finite False 0, isActive = True \<rparr>),
       st\<lparr> incomeSessions :=
             AList.update new_id
               \<lparr> id_IS = new_id, userSettingsId = uid, sessionStart = now,
                 sessionEnd = None, totalEarned = Finite False 0, isActive = True \<rparr>
               (incomeSessions st) \<rparr>)"
    using assms by (simp add: post_income_session_def createIncomeSession_def Let_def)
  then show ?thesis
    using None getActiveSession_None [of st uid] by blast
next
  case (Some s)
  then have "post_income_session st (Some uid) new_id now = (Response 200 (Session s), st)"
    using assms by (simp add: post_income_session_def)
  then show ?thesis
    using getActiveSession_Some [OF Some] by blast
qed

theorem C8_get_or_create_witness:
  "post_income_session store_A (Some ''A'') ''n'' 5 = (Response 200 (Session session_1), store_A) \<and>
   post_income_session store_A (Some ''Z'') ''n'' 5 =
     (Response 200
        (Session \<lparr> id_IS = ''n'', userSettingsId = ''Z'', sessionStart = 5,
                   sessionEnd = None, totalEarned = Finite False 0, isActive = True \<rparr>),
      store_A\<lparr> incomeSessions :=
                 [(''s1'', session_1), (''s2'', session_2), (''s3'', session_3),
                  (''n'', \<lparr> id_IS = ''n'', userSettingsId = ''Z'', sessionStart = 5,
                            sessionEnd = None, totalEarned = Finite False 0,
                            isActive = True \<rparr>)] \<rparr>)"
proof -
  have 1: "''A'' \<noteq> []" and 2: "''Z'' \<noteq> []"
    by simp_all
  have a: "userSettingsId session_1 = ''A''" "isActive session_1"
    "userSettingsId session_2 = ''Z''" "\<not> isActive session_2"
    "userSettingsId session_3 = ''C''" "isActive session_3"
    by (simp_all add: session_1_def session_2_def session_3_def)
  have i: "incomeSessions store_A = [(''s1'', session_1), (''s2'', session_2), (''s3'', session_3)]"
    by (simp add: store_A_def)
  show ?thesis
    using C8_get_or_create [OF 1, of store_A "''n''" 5] C8_get_or_create [OF 2, of store_A "''n''" 5]
    by (auto simp: i a)
qed

text \<open>
  C9. Ending a session that does not exist, or whose \<open>isActive\<close> is already false,
  answers 404 "Active session not found" and leaves the store as it was; and
  whenever ending answers with status 200, the session existed and was active, so
  the settlement is computed only for an active session.
\<close>

theorem C9_not_active:
  "(getIncomeSessionById st i = None \<or>
      (\<exists>s. getIncomeSessionById st i = Some s \<and> \<not> isActive s) \<longrightarrow>
        delete_income_session st i now =
          (Response 404 (Message ''Active session not found''), st)) \<and>
   (\<forall>b st'. delete_income_session st i now = (Response 200 b, st') \<longrightarrow>
        (\<exists>s. getIncomeSessionById st i = Some s \<and> isActive s))"
  by (auto simp: delete_income_session_def split: option.splits if_splits prod.splits)

theorem C9_not_active_witness:
  "delete_income_session store_A ''s2'' 5 =
     (Response 404 (Message ''Active session not found''), store_A) \<and>
   delete_income_session store_A ''none'' 5 =
     (Response 404 (Message ''Active session not found''), store_A) \<and>
   (\<exists>s. getIncomeSessionById store_A ''s1'' = Some s \<and> isActive s)"
proof -
  have 1: "getIncomeSessionById store_A ''s2'' = Some session_2 \<and> \<not> isActive session_2"
    by (simp add: getIncomeSessionById_def store_A_def session_2_def)
  have 2: "getIncomeSessionById store_A ''none'' = None"
    by (simp add: getIncomeSessionById_def store_A_def)
  have a: "getIncomeSessionById store_A ''s1'' = Some session_1"
    by (simp add: getIncomeSessionById_def store_A_def)
  have b: "isActive session_1"
    by (simp add: session_1_def)
  have c: "getUserSettingsById store_A (userSettingsId session_1) = Some scenario_A"
    by (simp add: getUserSettingsById_def getUserSettings_def store_A_def session_1_def)
  have d: "earned scenario_A (sessionStart session_1) 150000 \<noteq> NaN"
    by (simp add: session_1_def earned_A_90s)
  have 3: "\<exists>b st'. delete_income_session store_A ''s1'' 150000 = (Response 200 b, st')"
    using delete_settled [OF a b c d] by blast
  show ?thesis
    using C9_not_active [of store_A "''s2''" 5] C9_not_active [of store_A "''none''" 5]
      C9_not_active [of store_A "''s1''" 150000] 1 2 3
    by blast
qed



end
